theory Spec2Isabelle
  imports Main "HOL-Library.Word"
begin

section \<open>Machine types of the two translation units\<close>

text \<open>
  The DXIL validator wrapper is C++ against the Windows and DXC headers; the pool upload
  helper is C. Pointers and \<open>size_t\<close> are 64-bit words, \<open>HRESULT\<close> is a signed 32-bit
  word, \<open>ULONG\<close> and \<open>unsigned\<close> are unsigned 32-bit words, \<open>char\<close> is a byte.
\<close>

type_synonym LPVOID = "64 word"
type_synonym SIZE_T = "64 word"
type_synonym HRESULT = "32 word"
type_synonym ULONG = "32 word"
type_synonym IID = "128 word"
type_synonym byte = "8 word"

text \<open>
  The header macros \<open>FAILED(hr)\<close> and \<open>SUCCEEDED(hr)\<close> of winerror.h test the sign of the
  status code; \<open>E_NOINTERFACE\<close> and \<open>S_OK\<close> are its constants.
\<close>

definition FAILED :: "HRESULT \<Rightarrow> bool" where
  "FAILED hr = (sint hr < 0)"

definition SUCCEEDED :: "HRESULT \<Rightarrow> bool" where
  "SUCCEEDED hr = (0 \<le> sint hr)"

definition S_OK :: HRESULT where
  "S_OK = 0"

definition E_NOINTERFACE :: HRESULT where
  "E_NOINTERFACE = 0x80004002"

definition E_FAIL :: HRESULT where
  "E_FAIL = 0x80004005"

section \<open>The blob adapter: class ShaderBlob\<close>

record ShaderBlob =
  m_data :: LPVOID
  m_size :: SIZE_T

definition ShaderBlob_ctor :: "LPVOID \<Rightarrow> SIZE_T \<Rightarrow> ShaderBlob" where
  "ShaderBlob_ctor data size' = \<lparr>m_data = data, m_size = size'\<rparr>"

text \<open>
  Each method takes the object and returns its result with the object after the call.
  \<open>QueryInterface\<close> also takes the content of the caller's \<open>void **\<close> slot and returns
  it: the method never stores through it.
\<close>

definition GetBufferPointer :: "ShaderBlob \<Rightarrow> LPVOID \<times> ShaderBlob" where
  "GetBufferPointer b = (m_data b, b)"

definition GetBufferSize :: "ShaderBlob \<Rightarrow> SIZE_T \<times> ShaderBlob" where
  "GetBufferSize b = (m_size b, b)"

definition QueryInterface :: "ShaderBlob \<Rightarrow> IID \<Rightarrow> LPVOID \<Rightarrow> (HRESULT \<times> LPVOID) \<times> ShaderBlob" where
  "QueryInterface b riid slot = ((E_NOINTERFACE, slot), b)"

definition AddRef :: "ShaderBlob \<Rightarrow> ULONG \<times> ShaderBlob" where
  "AddRef b = (1, b)"

definition Release :: "ShaderBlob \<Rightarrow> ULONG \<times> ShaderBlob" where
  "Release b = (0, b)"

text \<open>A consumer's calls on the adapter, and what each call hands back.\<close>

datatype blob_call =
    CallGetBufferPointer
  | CallGetBufferSize
  | CallQueryInterface IID LPVOID
  | CallAddRef
  | CallRelease

datatype blob_ret =
    RetPointer LPVOID
  | RetSize SIZE_T
  | RetQuery HRESULT LPVOID
  | RetCount ULONG

fun blob_step :: "ShaderBlob \<Rightarrow> blob_call \<Rightarrow> blob_ret \<times> ShaderBlob" where
  "blob_step b CallGetBufferPointer = (let (p, b') = GetBufferPointer b in (RetPointer p, b'))"
| "blob_step b CallGetBufferSize = (let (n, b') = GetBufferSize b in (RetSize n, b'))"
| "blob_step b (CallQueryInterface riid slot) =
     (let ((hr, slot'), b') = QueryInterface b riid slot in (RetQuery hr slot', b'))"
| "blob_step b CallAddRef = (let (n, b') = AddRef b in (RetCount n, b'))"
| "blob_step b CallRelease = (let (n, b') = Release b in (RetCount n, b'))"

fun blob_run :: "ShaderBlob \<Rightarrow> blob_call list \<Rightarrow> blob_ret list \<times> ShaderBlob" where
  "blob_run b [] = ([], b)"
| "blob_run b (c # cs) =
     (let (r, b') = blob_step b c; (rs, b'') = blob_run b' cs in (r # rs, b''))"

text \<open>What the adapter's contract promises for one call on a view of \<open>(data, size)\<close>.\<close>

fun blob_expected :: "LPVOID \<Rightarrow> SIZE_T \<Rightarrow> blob_call \<Rightarrow> blob_ret" where
  "blob_expected d n CallGetBufferPointer = RetPointer d"
| "blob_expected d n CallGetBufferSize = RetSize n"
| "blob_expected d n (CallQueryInterface riid slot) = RetQuery E_NOINTERFACE slot"
| "blob_expected d n CallAddRef = RetCount 1"
| "blob_expected d n CallRelease = RetCount 0"

section \<open>The pool upload helpers of pan_pool.c\<close>

type_synonym mali_ptr = "64 word"

record panfrost_ptr =
  cpu :: LPVOID
  gpu :: mali_ptr

text \<open>
  CPU memory is a store from addresses to bytes. \<open>memcpy\<close> writes \<open>n\<close> bytes at \<open>dst\<close>,
  read from \<open>src\<close> in the store before the call.
\<close>

type_synonym memory = "64 word \<Rightarrow> byte"

definition memcpy :: "memory \<Rightarrow> LPVOID \<Rightarrow> LPVOID \<Rightarrow> SIZE_T \<Rightarrow> memory" where
  "memcpy mem dst src n = (\<lambda>a. if a - dst < n then mem (src + (a - dst)) else mem a)"

text \<open>
  \<open>pan_pool_alloc_aligned\<close> is declared in pan_pool.h and is a parameter here: from a
  pool, a size and an \<open>unsigned\<close> alignment it gives the transfer and the pool after
  the allocation.
\<close>

type_synonym 'p pool_alloc = "'p \<Rightarrow> SIZE_T \<Rightarrow> 32 word \<Rightarrow> panfrost_ptr \<times> 'p"

definition pan_pool_upload_aligned ::
  "'p pool_alloc \<Rightarrow> 'p \<Rightarrow> memory \<Rightarrow> LPVOID \<Rightarrow> SIZE_T \<Rightarrow> 32 word \<Rightarrow> mali_ptr \<times> 'p \<times> memory" where
  "pan_pool_upload_aligned pan_pool_alloc_aligned pool mem data sz alignment =
     (let (transfer, pool') = pan_pool_alloc_aligned pool sz alignment;
          mem' = memcpy mem (cpu transfer) data sz
      in (gpu transfer, pool', mem'))"

text \<open>The call passes the \<open>size_t\<close> \<open>sz\<close> for the \<open>unsigned\<close> parameter: C converts it.\<close>

definition pan_pool_upload ::
  "'p pool_alloc \<Rightarrow> 'p \<Rightarrow> memory \<Rightarrow> LPVOID \<Rightarrow> SIZE_T \<Rightarrow> mali_ptr \<times> 'p \<times> memory" where
  "pan_pool_upload pan_pool_alloc_aligned pool mem data sz =
     pan_pool_upload_aligned pan_pool_alloc_aligned pool mem data sz (ucast sz)"

section \<open>The validator wrapper: handles, the outside world, effects\<close>

text \<open>
  \<open>HMODULE\<close>, the factory's address and the COM interface pointers are addresses; the
  null pointer is 0.
\<close>

type_synonym HMODULE = "64 word"
type_synonym FARPROC = "64 word"
type_synonym COMPTR = "64 word"

abbreviation NULL :: "64 word" where
  "NULL \<equiv> 0"

record dxil_validator =
  dxil_mod :: HMODULE
  dxcompiler_mod :: HMODULE
  dxc_validator :: COMPTR
  dxc_library :: COMPTR
  dxc_compiler :: COMPTR

datatype CLSID = CLSID_DxcValidator | CLSID_DxcLibrary | CLSID_DxcCompiler

text \<open>
  A \<open>char *\<close> value is null (\<open>None\<close>) or points to the bytes of a string in the arena,
  terminator included. The \<open>char **error\<close> argument is null (\<open>None\<close>) or points to a slot
  of the caller that holds such a value, whatever the caller left there.
\<close>

type_synonym char_ptr = "byte list option"
type_synonym error_slot = "char_ptr option"

text \<open>
  The operation result of a validation, as far as the wrapper reads it: the status that
  \<open>GetStatus\<close> stores and what \<open>GetErrorBuffer\<close> answers (its status and the raw blob).
  An encoded blob is the bytes at its buffer pointer, as many as its buffer size.
\<close>

record IDxcOperationResult =
  GetStatus :: HRESULT
  GetErrorBuffer :: "HRESULT \<times> byte list"

text \<open>
  The operating system, the two DXC libraries and the arena are outside the translation
  unit and are parameters: what each call answers. A factory call answers its status and
  the pointer it stored through the out-parameter. \<open>GetModuleFileNameA\<close> answers the
  returned length and the string it left in the buffer of the given size. \<open>rzalloc\<close>
  under the caller's context and \<open>ralloc_strdup\<close> under the validator succeed or find
  no memory.
\<close>

record world =
  LoadLibraryA :: "string \<Rightarrow> HMODULE"
  GetModuleFileNameA :: "nat \<Rightarrow> 32 word \<times> string"
  GetProcAddress :: "HMODULE \<Rightarrow> string \<Rightarrow> FARPROC"
  DxcCreateInstance :: "FARPROC \<Rightarrow> CLSID \<Rightarrow> HRESULT \<times> COMPTR"
  Validate :: "COMPTR \<Rightarrow> ShaderBlob \<Rightarrow> 32 word \<Rightarrow> IDxcOperationResult"
  GetBlobAsUtf8 :: "COMPTR \<Rightarrow> byte list \<Rightarrow> HRESULT \<times> byte list"
  Disassemble :: "COMPTR \<Rightarrow> ShaderBlob \<Rightarrow> HRESULT \<times> byte list"
  rzalloc_succeeds :: "LPVOID \<Rightarrow> bool"
  ralloc_strdup_succeeds :: bool

text \<open>The effects a call leaves behind, in the order they happen.\<close>

datatype event =
    EvLoadLibrary string
  | EvGetModuleFileName
  | EvGetProcAddress HMODULE string
  | EvCreateInstance FARPROC CLSID
  | EvFreeLibrary HMODULE
  | EvRelease COMPTR
  | EvRallocFree
  | EvDebugPrintf string
  | EvStderr string
  | EvStoreError char_ptr

text \<open>A call returns a value, or runs into undefined behaviour on the way.\<close>

datatype 'a outcome = Returned 'a | Fault

definition MAX_PATH :: nat where
  "MAX_PATH = 260"

definition DxcValidatorFlags_InPlaceEdit :: "32 word" where
  "DxcValidatorFlags_InPlaceEdit = 1"

definition nl :: string where
  "nl = [CHR 0x0A]"

definition backslash :: char where
  "backslash = CHR 0x5C"

section \<open>The C library calls of the wrapper\<close>

text \<open>\<open>strrchr\<close>: the position of the last occurrence of the character, if there is one.\<close>

fun strrchr :: "string \<Rightarrow> char \<Rightarrow> nat option" where
  "strrchr [] c = None"
| "strrchr (x # xs) c =
     (case strrchr xs c of
        Some i \<Rightarrow> Some (Suc i)
      | None \<Rightarrow> if x = c then Some 0 else None)"

text \<open>
  \<open>strcat_s\<close> on a destination array of \<open>cap\<close> bytes: the concatenation when it fits
  with its terminator, an error otherwise.
\<close>

definition strcat_s :: "nat \<Rightarrow> string \<Rightarrow> string \<Rightarrow> string option" where
  "strcat_s cap dst src =
     (if length dst + length src + 1 \<le> cap then Some (dst @ src) else None)"

text \<open>
  The statement \<open>str[blob_utf8->GetBufferSize() - 1] = 0\<close>: the index is computed in
  \<open>size_t\<close>, so size 0 gives the largest \<open>size_t\<close>; a store outside the buffer is
  undefined behaviour (\<open>None\<close>).
\<close>

definition store_terminator :: "byte list \<Rightarrow> byte list option" where
  "store_terminator buf =
     (let i = unat ((of_nat (length buf) :: SIZE_T) - 1)
      in if i < length buf then Some (buf[i := 0]) else None)"

text \<open>
  Modelled from the spec: \<open>ralloc_strdup\<close> of util/ralloc.c, which is not among the
  sources. It copies the string into the context's arena as a null-terminated string: the
  bytes before the first zero byte, then a terminator; null when the arena has no memory.
\<close>

definition ralloc_strdup :: "bool \<Rightarrow> byte list \<Rightarrow> char_ptr" where
  "ralloc_strdup ok str =
     (if ok then Some (takeWhile (\<lambda>b. b \<noteq> 0) str @ [0]) else None)"

text \<open>\<open>strlen\<close> of a \<open>char *\<close> value that is not null.\<close>

definition strlen :: "byte list \<Rightarrow> nat" where
  "strlen s = length (takeWhile (\<lambda>b. b \<noteq> 0) s)"

section \<open>load_dxil_mod\<close>

definition load_dxil_mod :: "world \<Rightarrow> HMODULE \<times> event list" where
  "load_dxil_mod w =
     (let mod' = LoadLibraryA w ''DXIL.dll''; t0 = [EvLoadLibrary ''DXIL.dll''] in
      if mod' \<noteq> NULL then (mod', t0)
      else
        let (path_size, self_path) = GetModuleFileNameA w MAX_PATH;
            t1 = t0 @ [EvGetModuleFileName] in
        if path_size = 0 \<or> path_size = of_nat MAX_PATH then
          (NULL, t1 @ [EvDebugPrintf ''DXIL: Unable to get path to self''])
        else
          (case strrchr self_path backslash of
             None \<Rightarrow> (NULL, t1 @ [EvDebugPrintf ''DXIL: Unable to get path to self''])
           | Some last_slash \<Rightarrow>
               (case strcat_s MAX_PATH (take (last_slash + 1) self_path) ''DXIL.dll'' of
                  None \<Rightarrow>
                    (NULL, t1 @ [EvDebugPrintf
                       ''DXIL: Unable to get path to DXIL.dll next to self''])
                | Some path \<Rightarrow> (LoadLibraryA w path, t1 @ [EvLoadLibrary path]))))"

section \<open>create_dxc_validator and dxil_create_validator\<close>

definition create_dxc_validator :: "world \<Rightarrow> HMODULE \<Rightarrow> COMPTR \<times> event list" where
  "create_dxc_validator w dxil_mod' =
     (let dxil_create_func = GetProcAddress w dxil_mod' ''DxcCreateInstance'';
          t0 = [EvGetProcAddress dxil_mod' ''DxcCreateInstance''] in
      if dxil_create_func = NULL then
        (NULL, t0 @ [EvDebugPrintf
           (''DXIL: Failed to load DxcCreateInstance from DXIL.dll'' @ nl)])
      else
        let (hr, dxc_validator') = DxcCreateInstance w dxil_create_func CLSID_DxcValidator;
            t1 = t0 @ [EvCreateInstance dxil_create_func CLSID_DxcValidator] in
        if FAILED hr then
          (NULL, t1 @ [EvDebugPrintf (''DXIL: Failed to create validator'' @ nl)])
        else (dxc_validator', t1))"

text \<open>The label \<open>fail\<close> of \<open>dxil_create_validator\<close>.\<close>

definition create_fail :: "dxil_validator \<Rightarrow> event list" where
  "create_fail val =
     (if dxil_mod val \<noteq> NULL then [EvFreeLibrary (dxil_mod val)] else []) @ [EvRallocFree]"

text \<open>
  The diagnostics part of \<open>dxil_create_validator\<close>, from the load of dxcompiler.dll to
  the \<open>return val\<close>.
\<close>

definition create_diagnostics :: "world \<Rightarrow> dxil_validator \<Rightarrow> dxil_validator \<times> event list" where
  "create_diagnostics w val0 =
     (let val1 = val0\<lparr>dxcompiler_mod := LoadLibraryA w ''dxcompiler.dll''\<rparr>;
          t0 = [EvLoadLibrary ''dxcompiler.dll''] in
      if dxcompiler_mod val1 \<noteq> NULL then
        let compiler_create_func = GetProcAddress w (dxcompiler_mod val1) ''DxcCreateInstance'';
            t1 = t0 @ [EvGetProcAddress (dxcompiler_mod val1) ''DxcCreateInstance''] in
        if compiler_create_func = NULL then
          (val1, t1 @ [EvDebugPrintf
             (''DXIL: Failed to load DxcCreateInstance from dxcompiler.dll'' @ nl)])
        else
          let (hr1, lib) = DxcCreateInstance w compiler_create_func CLSID_DxcLibrary;
              val2 = val1\<lparr>dxc_library := lib\<rparr>;
              t2 = t1 @ [EvCreateInstance compiler_create_func CLSID_DxcLibrary]
                 @ (if FAILED hr1
                    then [EvDebugPrintf (''DXIL: Unable to create IDxcLibrary instance'' @ nl)]
                    else []);
              (hr2, comp) = DxcCreateInstance w compiler_create_func CLSID_DxcCompiler;
              val3 = val2\<lparr>dxc_compiler := comp\<rparr>;
              t3 = t2 @ [EvCreateInstance compiler_create_func CLSID_DxcCompiler]
                 @ (if FAILED hr2
                    then [EvDebugPrintf (''DXIL: Unable to create IDxcCompiler instance'' @ nl)]
                    else [])
          in (val3, t3)
      else (val1, t0))"

definition rzalloc_dxil_validator :: dxil_validator where
  "rzalloc_dxil_validator =
     \<lparr>dxil_mod = NULL, dxcompiler_mod = NULL, dxc_validator = NULL, dxc_library = NULL,
      dxc_compiler = NULL\<rparr>"

definition dxil_create_validator ::
  "world \<Rightarrow> LPVOID \<Rightarrow> dxil_validator option \<times> event list" where
  "dxil_create_validator w ctx =
     (if \<not> rzalloc_succeeds w ctx then (None, [])
      else
        let (m, t0) = load_dxil_mod w;
            val0 = rzalloc_dxil_validator\<lparr>dxil_mod := m\<rparr> in
        if dxil_mod val0 = NULL then
          (None, t0 @ [EvDebugPrintf (''DXIL: Failed to load DXIL.dll'' @ nl)] @ create_fail val0)
        else
          let (v, t1) = create_dxc_validator w (dxil_mod val0);
              val1 = val0\<lparr>dxc_validator := v\<rparr> in
          if dxc_validator val1 = NULL then (None, t0 @ t1 @ create_fail val1)
          else
            let (val2, t2) = create_diagnostics w val1
            in (Some val2, t0 @ t1 @ t2))"

section \<open>dxil_destroy_validator\<close>

definition dxil_destroy_validator :: "dxil_validator \<Rightarrow> unit outcome \<times> event list" where
  "dxil_destroy_validator val =
     (if dxc_validator val = NULL then (Fault, [])
      else
        (Returned (),
         [EvRelease (dxc_validator val), EvFreeLibrary (dxil_mod val)]
         @ (if dxcompiler_mod val \<noteq> NULL then
              (if dxc_library val \<noteq> NULL then [EvRelease (dxc_library val)] else [])
              @ (if dxc_compiler val \<noteq> NULL then [EvRelease (dxc_compiler val)] else [])
              @ [EvFreeLibrary (dxcompiler_mod val)]
            else [])
         @ [EvRallocFree]))"

section \<open>dxil_validate_module and dxil_disasm_module\<close>

text \<open>
  The block under \<open>if (FAILED(hr) && error)\<close>: it leaves by its \<open>return false\<close>, falls
  through to the function's last statement, or runs into the store outside the buffer.
\<close>

datatype flow = ReturnNow bool | FallThrough | Undefined

definition resolve_error_message ::
  "world \<Rightarrow> dxil_validator \<Rightarrow> IDxcOperationResult \<Rightarrow> flow \<times> char_ptr \<times> event list" where
  "resolve_error_message w val result =
     (let t0 = [EvStoreError None] in
      if dxc_library val = NULL then
        (ReturnNow False, None, t0 @ [EvDebugPrintf
           (''DXIL: validation failed, but lacking IDxcLibrary''
            @ ''from dxcompiler.dll for proper diagnostics.'' @ nl)])
      else
        let (hr1, blob) = GetErrorBuffer result in
        if FAILED hr1 then
          (FallThrough, None,
           t0 @ [EvStderr (''DXIL: IDxcOperationResult::GetErrorBuffer() failed'' @ nl)])
        else
          let (hr2, blob_utf8) = GetBlobAsUtf8 w (dxc_library val) blob in
          if FAILED hr2 then
            (FallThrough, None,
             t0 @ [EvStderr (''DXIL: IDxcLibrary::GetBlobAsUtf8() failed'' @ nl)])
          else
            (case store_terminator blob_utf8 of
               None \<Rightarrow> (Undefined, None, t0)
             | Some str \<Rightarrow>
                 let p = ralloc_strdup (ralloc_strdup_succeeds w) str
                 in (FallThrough, p, t0 @ [EvStoreError p])))"

definition dxil_validate_module ::
  "world \<Rightarrow> dxil_validator \<Rightarrow> LPVOID \<Rightarrow> SIZE_T \<Rightarrow> error_slot
     \<Rightarrow> bool outcome \<times> error_slot \<times> event list" where
  "dxil_validate_module w val data size' error =
     (if dxc_validator val = NULL then (Fault, error, [])
      else
        let source = ShaderBlob_ctor data size';
            result = Validate w (dxc_validator val) source DxcValidatorFlags_InPlaceEdit;
            hr = GetStatus result in
        if FAILED hr \<and> error \<noteq> None then
          (case resolve_error_message w val result of
             (ReturnNow b, p, t) \<Rightarrow> (Returned b, Some p, t)
           | (Undefined, p, t) \<Rightarrow> (Fault, Some p, t)
           | (FallThrough, p, t) \<Rightarrow> (Returned (SUCCEEDED hr), Some p, t))
        else (Returned (SUCCEEDED hr), error, []))"

definition dxil_disasm_module ::
  "world \<Rightarrow> dxil_validator \<Rightarrow> LPVOID \<Rightarrow> SIZE_T \<Rightarrow> char_ptr outcome \<times> event list" where
  "dxil_disasm_module w val data size' =
     (if dxc_compiler val = NULL \<or> dxc_library val = NULL then
        (Returned None,
         [EvStderr (''DXIL: disassembly requires IDxcLibrary and ''
                    @ ''IDxcCompiler from dxcompiler.dll'' @ nl)])
      else
        let source = ShaderBlob_ctor data size';
            (hr1, blob) = Disassemble w (dxc_compiler val) source in
        if FAILED hr1 then
          (Returned None, [EvStderr (''DXIL: IDxcCompiler::Disassemble() failed'' @ nl)])
        else
          let (hr2, blob_utf8) = GetBlobAsUtf8 w (dxc_library val) blob in
          if FAILED hr2 then
            (Returned None, [EvStderr (''DXIL: IDxcLibrary::GetBlobAsUtf8() failed'' @ nl)])
          else
            (case store_terminator blob_utf8 of
               None \<Rightarrow> (Fault, [])
             | Some str \<Rightarrow> (Returned (ralloc_strdup (ralloc_strdup_succeeds w) str), [])))"

section \<open>The COM rule for out-parameters\<close>

text \<open>
  COM asks of every factory that a failing call stores null through its out-parameter.
  The wrapper does not reset the field itself after a failing call.
\<close>

definition com_out_rule :: "world \<Rightarrow> bool" where
  "com_out_rule w =
     (\<forall>f c. FAILED (fst (DxcCreateInstance w f c)) \<longrightarrow> snd (DxcCreateInstance w f c) = NULL)"

section \<open>Reading a trace\<close>

definition load_attempts :: "event list \<Rightarrow> string list" where
  "load_attempts t = [n. EvLoadLibrary n \<leftarrow> t]"

definition log_lines :: "event list \<Rightarrow> string list" where
  "log_lines t = concat (map (\<lambda>e. case e of EvDebugPrintf s \<Rightarrow> [s] | EvStderr s \<Rightarrow> [s] | _ \<Rightarrow> []) t)"

definition stores :: "event list \<Rightarrow> char_ptr list" where
  "stores t = [p. EvStoreError p \<leftarrow> t]"

definition unloads :: "event list \<Rightarrow> HMODULE list" where
  "unloads t = [m. EvFreeLibrary m \<leftarrow> t]"

definition releases :: "event list \<Rightarrow> COMPTR list" where
  "releases t = [p. EvRelease p \<leftarrow> t]"

definition instantiations :: "event list \<Rightarrow> CLSID list" where
  "instantiations t = [c. EvCreateInstance f c \<leftarrow> t]"

text \<open>
  The string left in the arena for a decoded buffer of at least one byte: the bytes before
  its last byte, up to the first zero byte among them, and a terminator.
\<close>

definition terminated_copy :: "byte list \<Rightarrow> byte list" where
  "terminated_copy buf = takeWhile (\<lambda>b. b \<noteq> 0) (butlast buf) @ [0]"

text \<open>The directory part of a path: everything up to and including its last backslash.\<close>

definition directory_of :: "string \<Rightarrow> string" where
  "directory_of path = rev (dropWhile (\<lambda>c. c \<noteq> backslash) (rev path))"

text \<open>\<open>precedes a b t\<close>: \<open>a\<close> happens in \<open>t\<close>, and \<open>b\<close> does not happen before it.\<close>

definition precedes :: "event \<Rightarrow> event \<Rightarrow> event list \<Rightarrow> bool" where
  "precedes a b t = (a \<in> set t \<and> b \<notin> set (takeWhile (\<lambda>e. e \<noteq> a) t))"

text \<open>\<open>followed_by a b t\<close>: \<open>a\<close> happens in \<open>t\<close>, and \<open>b\<close> happens after the first \<open>a\<close>.\<close>

definition followed_by :: "event \<Rightarrow> event \<Rightarrow> event list \<Rightarrow> bool" where
  "followed_by a b t = (b \<in> set (drop 1 (dropWhile (\<lambda>e. e \<noteq> a) t)))"

section \<open>Sample worlds\<close>

text \<open>
  A machine with neither library installed, on which every service call fails; the
  worlds of the examples below change it field by field.
\<close>

definition bare_world :: world where
  "bare_world =
     \<lparr>LoadLibraryA = (\<lambda>name. NULL),
      GetModuleFileNameA = (\<lambda>n. (0, [])),
      GetProcAddress = (\<lambda>m name. NULL),
      DxcCreateInstance = (\<lambda>f c. (E_FAIL, NULL)),
      Validate = (\<lambda>v b flags. \<lparr>GetStatus = E_FAIL, GetErrorBuffer = (E_FAIL, [])\<rparr>),
      GetBlobAsUtf8 = (\<lambda>l b. (E_FAIL, [])),
      Disassemble = (\<lambda>c b. (E_FAIL, [])),
      rzalloc_succeeds = (\<lambda>ctx. True),
      ralloc_strdup_succeeds = True\<rparr>"

text \<open>
  A machine with both libraries installed: DXIL.dll at handle \<open>0x1000\<close>, dxcompiler.dll at
  \<open>0x2000\<close>, each factory at its library's handle plus \<open>0x10\<close>, and the three services
  at the factory's address plus 1, 2 and 3.
\<close>

definition full_world :: world where
  "full_world = bare_world\<lparr>
      LoadLibraryA := (\<lambda>name. if name = ''DXIL.dll'' then 0x1000
                              else if name = ''dxcompiler.dll'' then 0x2000 else NULL),
      GetProcAddress := (\<lambda>m name. if name = ''DxcCreateInstance'' then m + 0x10 else NULL),
      DxcCreateInstance := (\<lambda>f c. (S_OK, f + (case c of CLSID_DxcValidator \<Rightarrow> 1
                                                | CLSID_DxcLibrary \<Rightarrow> 2
                                                | CLSID_DxcCompiler \<Rightarrow> 3)))\<rparr>"

text \<open>The context that construction returns on that machine.\<close>

definition full_context :: dxil_validator where
  "full_context =
     \<lparr>dxil_mod = 0x1000, dxcompiler_mod = 0x2000, dxc_validator = 0x1011,
      dxc_library = 0x2012, dxc_compiler = 0x2013\<rparr>"

text \<open>The same machine without dxcompiler.dll.\<close>

definition validator_only_world :: world where
  "validator_only_world = full_world\<lparr>
      LoadLibraryA := (\<lambda>name. if name = ''DXIL.dll'' then 0x1000 else NULL)\<rparr>"

text \<open>The context that construction returns on the machine without dxcompiler.dll.\<close>

definition validator_only_context :: dxil_validator where
  "validator_only_context =
     \<lparr>dxil_mod = 0x1000, dxcompiler_mod = NULL, dxc_validator = 0x1011,
      dxc_library = NULL, dxc_compiler = NULL\<rparr>"

text \<open>
  The full machine with a dxcompiler.dll whose factory cannot make the library service and
  stores null for it, and makes the compiler service.
\<close>

definition no_library_service_world :: world where
  "no_library_service_world = full_world\<lparr>
      DxcCreateInstance := (\<lambda>f c. case c of CLSID_DxcValidator \<Rightarrow> (S_OK, f + 1)
                                       | CLSID_DxcLibrary \<Rightarrow> (E_FAIL, NULL)
                                       | CLSID_DxcCompiler \<Rightarrow> (S_OK, f + 3))\<rparr>"

text \<open>
  The full machine with a validator that rejects every buffer, an error buffer holding the
  given bytes, a disassembler that answers the same bytes, and a decoder that hands the
  bytes back as they are.
\<close>

definition rejecting_world :: "byte list \<Rightarrow> world" where
  "rejecting_world text = full_world\<lparr>
      Validate := (\<lambda>v b flags. \<lparr>GetStatus = E_FAIL, GetErrorBuffer = (S_OK, text)\<rparr>),
      GetBlobAsUtf8 := (\<lambda>l b. (S_OK, b)),
      Disassemble := (\<lambda>c b. (S_OK, text))\<rparr>"

text \<open>The full machine with a validator that accepts every buffer.\<close>

definition accepting_world :: world where
  "accepting_world = full_world\<lparr>
      Validate := (\<lambda>v b flags. \<lparr>GetStatus = S_OK, GetErrorBuffer = (S_OK, [])\<rparr>)\<rparr>"

text \<open>
  The path of the running module (drive \<open>C:\<close>, directory \<open>app\<close>, file \<open>gl.dll\<close>, joined by
  backslashes) and the path of DXIL.dll next to it.
\<close>

definition sample_self_path :: string where
  "sample_self_path = ''C:'' @ [backslash] @ ''app'' @ [backslash] @ ''gl.dll''"

definition sample_dxil_path :: string where
  "sample_dxil_path = ''C:'' @ [backslash] @ ''app'' @ [backslash] @ ''DXIL.dll''"

section \<open>Properties of the blob adapter\<close>

lemma blob_step_expected:
  "blob_step b c = (blob_expected (m_data b) (m_size b) c, b)"
  by (cases c)
     (simp_all add: GetBufferPointer_def GetBufferSize_def QueryInterface_def AddRef_def
        Release_def)

lemma blob_run_expected:
  "blob_run b cs = (map (blob_expected (m_data b) (m_size b)) cs, b)"
  by (induction cs) (simp_all add: blob_step_expected)

text \<open>
  C8. For every adapter built over \<open>(data, size)\<close> and every sequence of calls on it, the
  object after the calls is the object before them (acquire and release change nothing and
  return the constants 1 and 0), every capability query answers \<open>E_NOINTERFACE\<close>, a failing
  status, without storing through the caller's slot, and the pointer and length calls
  return the caller's own \<open>data\<close> and \<open>size\<close>.
\<close>

theorem ShaderBlob_calls_neutral:
  "snd (blob_run (ShaderBlob_ctor data n) cs) = ShaderBlob_ctor data n
   \<and> fst (blob_run (ShaderBlob_ctor data n) cs) = map (blob_expected data n) cs
   \<and> m_data (snd (blob_run (ShaderBlob_ctor data n) cs)) = data
   \<and> m_size (snd (blob_run (ShaderBlob_ctor data n) cs)) = n
   \<and> fst (AddRef b) = 1 \<and> snd (AddRef b) = b
   \<and> fst (Release b) = 0 \<and> snd (Release b) = b
   \<and> fst (QueryInterface b riid slot) = (E_NOINTERFACE, slot)
   \<and> snd (QueryInterface b riid slot) = b
   \<and> FAILED E_NOINTERFACE \<and> E_NOINTERFACE \<noteq> S_OK"
  by (simp add: blob_run_expected ShaderBlob_ctor_def AddRef_def Release_def
      QueryInterface_def FAILED_def E_NOINTERFACE_def S_OK_def)

section \<open>Properties of the pool upload\<close>

text \<open>
  C10. For every allocator, pool, store, data pointer and size, \<open>pan_pool_upload\<close> gives
  the device address, the pool and the store (hence the copy) that
  \<open>pan_pool_upload_aligned\<close> gives when it is called with \<open>sz\<close> for both the size and the
  alignment. The alignment parameter is \<open>unsigned\<close>, so in both calls it receives \<open>sz\<close>
  converted to 32 bits, whose value is \<open>sz\<close> for every size below \<open>2^32\<close>.
\<close>

theorem pan_pool_upload_is_aligned_upload:
  "pan_pool_upload alloc pool mem data sz
     = pan_pool_upload_aligned alloc pool mem data sz (ucast sz)
   \<and> (unat sz < 2 ^ 32 \<longrightarrow> unat (ucast sz :: 32 word) = unat sz)"
  by (simp add: pan_pool_upload_def unsigned_ucast_eq take_bit_nat_eq_self)

theorem pan_pool_upload_is_aligned_upload_witness:
  "unat (24 :: 64 word) < 2 ^ 32
   \<and> unat (ucast (24 :: 64 word) :: 32 word) = unat (24 :: 64 word)
   \<and> pan_pool_upload (\<lambda>p n a. (\<lparr>cpu = 4096, gpu = 8192 + ucast a\<rparr>, p + 1)) (0 :: nat)
         (\<lambda>a. 0) 512 24
       = pan_pool_upload_aligned (\<lambda>p n a. (\<lparr>cpu = 4096, gpu = 8192 + ucast a\<rparr>, p + 1)) 0
         (\<lambda>a. 0) 512 24 24"
  using pan_pool_upload_is_aligned_upload
    [where sz = 24 and alloc = "\<lambda>p n a. (\<lparr>cpu = 4096, gpu = 8192 + ucast a\<rparr>, p + 1)"
       and pool = "0 :: nat" and mem = "\<lambda>a. 0" and data = 512]
  by simp

section \<open>Properties of the library loader\<close>

lemma strrchr_None: "strrchr s c = None \<longleftrightarrow> c \<notin> set s"
  by (induction s) (auto split: option.splits)

lemma strrchr_take:
  "strrchr s c = Some i \<Longrightarrow> take (Suc i) s = rev (dropWhile (\<lambda>x. x \<noteq> c) (rev s))"
proof (induction s arbitrary: i)
  case Nil then show ?case by simp
next
  case (Cons x xs)
  show ?case
  proof (cases "strrchr xs c")
    case None
    with Cons.prems have xc: "x = c" "i = 0" by (auto split: if_splits)
    have "c \<notin> set xs" using None by (simp add: strrchr_None)
    then have "dropWhile (\<lambda>x. x \<noteq> c) (rev xs @ [c]) = [c]"
      by (simp add: dropWhile_append)
    with xc show ?thesis by simp
  next
    case (Some j)
    with Cons.prems have i: "i = Suc j" by simp
    have "c \<in> set xs" using Some strrchr_None[of xs c] by auto
    then have "dropWhile (\<lambda>x. x \<noteq> c) (rev xs @ [x]) = dropWhile (\<lambda>x. x \<noteq> c) (rev xs) @ [x]"
      by (simp add: dropWhile_append)
    with Cons.IH[OF Some] i show ?thesis by simp
  qed
qed

lemma strrchr_directory:
  "strrchr s backslash = Some i \<Longrightarrow> take (i + 1) s = directory_of s"
  using strrchr_take[of s backslash i] by (simp add: directory_of_def)

lemma load_attempts_simps:
  "load_attempts [] = []"
  "load_attempts (a @ b) = load_attempts a @ load_attempts b"
  "load_attempts (EvLoadLibrary n # t) = n # load_attempts t"
  "load_attempts (EvGetModuleFileName # t) = load_attempts t"
  "load_attempts (EvDebugPrintf s # t) = load_attempts t"
  by (simp_all add: load_attempts_def)

lemma load_dxil_mod_first:
  "LoadLibraryA w ''DXIL.dll'' \<noteq> NULL \<Longrightarrow>
     load_dxil_mod w = (LoadLibraryA w ''DXIL.dll'', [EvLoadLibrary ''DXIL.dll''])"
  by (simp add: load_dxil_mod_def Let_def)

lemma load_dxil_mod_no_path:
  assumes "LoadLibraryA w ''DXIL.dll'' = NULL"
    and "fst (GetModuleFileNameA w MAX_PATH) = 0 \<or> fst (GetModuleFileNameA w MAX_PATH) = 260
         \<or> backslash \<notin> set (snd (GetModuleFileNameA w MAX_PATH))
         \<or> MAX_PATH < length (directory_of (snd (GetModuleFileNameA w MAX_PATH)) @ ''DXIL.dll'') + 1"
  shows "fst (load_dxil_mod w) = NULL \<and> load_attempts (snd (load_dxil_mod w)) = [''DXIL.dll'']"
proof (cases "GetModuleFileNameA w MAX_PATH")
  case (Pair n p)
  show ?thesis
  proof (cases "strrchr p backslash")
    case None
    with assms Pair show ?thesis
      by (simp add: load_dxil_mod_def Let_def load_attempts_simps MAX_PATH_def)
  next
    case (Some i)
    then have d: "take (Suc i) p = directory_of p" using strrchr_directory[of p i] by simp
    have bs: "backslash \<in> set p" using Some strrchr_None[of p backslash] by auto
    show ?thesis
    proof (cases "n = 0 \<or> n = 260")
      case True
      with assms Pair show ?thesis
        by (auto simp add: load_dxil_mod_def Let_def load_attempts_simps MAX_PATH_def)
    next
      case False
      with assms Pair bs have "MAX_PATH < length (directory_of p @ ''DXIL.dll'') + 1" by auto
      then have "strcat_s MAX_PATH (directory_of p) ''DXIL.dll'' = None"
        by (simp add: strcat_s_def)
      with assms(1) Pair Some False d show ?thesis
        by (simp add: load_dxil_mod_def Let_def load_attempts_simps MAX_PATH_def)
    qed
  qed
qed

lemma load_dxil_mod_next_to_self:
  assumes "LoadLibraryA w ''DXIL.dll'' = NULL"
    and "fst (GetModuleFileNameA w MAX_PATH) \<noteq> 0" "fst (GetModuleFileNameA w MAX_PATH) \<noteq> 260"
    and "backslash \<in> set (snd (GetModuleFileNameA w MAX_PATH))"
    and "length (directory_of (snd (GetModuleFileNameA w MAX_PATH)) @ ''DXIL.dll'') + 1 \<le> MAX_PATH"
  shows "load_dxil_mod w =
     (LoadLibraryA w (directory_of (snd (GetModuleFileNameA w MAX_PATH)) @ ''DXIL.dll''),
      [EvLoadLibrary ''DXIL.dll'', EvGetModuleFileName,
       EvLoadLibrary (directory_of (snd (GetModuleFileNameA w MAX_PATH)) @ ''DXIL.dll'')])"
proof (cases "GetModuleFileNameA w MAX_PATH")
  case (Pair n p)
  from assms(4) Pair obtain i where i: "strrchr p backslash = Some i"
    using strrchr_None[of p backslash] by (cases "strrchr p backslash") auto
  then have d: "take (Suc i) p = directory_of p" using strrchr_directory[of p i] by simp
  from assms(5) Pair have "strcat_s MAX_PATH (directory_of p) ''DXIL.dll''
      = Some (directory_of p @ ''DXIL.dll'')"
    by (simp add: strcat_s_def)
  with assms(1,2,3) Pair i d show ?thesis
    by (simp add: load_dxil_mod_def Let_def MAX_PATH_def)
qed


text \<open>
  C7. \<open>load_dxil_mod\<close> first asks for DXIL.dll on the default search path, and when
  that succeeds it does nothing else. Only when it fails is the path of the running module
  read; a returned length of 0 or of the buffer's size \<open>MAX_PATH\<close>, a path without a
  backslash, or a directory to which DXIL.dll cannot be appended within \<open>MAX_PATH\<close>
  bytes, each gives null with no second load. Otherwise the second and last load is of
  DXIL.dll in the directory of the running module, and its answer is returned; so when
  every load attempted fails, the result is null.
\<close>

theorem load_dxil_mod_search_order:
  fixes w :: world
  defines "first \<equiv> LoadLibraryA w ''DXIL.dll''"
    and "path_size \<equiv> fst (GetModuleFileNameA w MAX_PATH)"
    and "next_to_self \<equiv> directory_of (snd (GetModuleFileNameA w MAX_PATH)) @ ''DXIL.dll''"
  shows
  "(first \<noteq> NULL \<longrightarrow> load_dxil_mod w = (first, [EvLoadLibrary ''DXIL.dll'']))
   \<and> (first = NULL
        \<and> (path_size = 0 \<or> path_size = of_nat MAX_PATH
             \<or> backslash \<notin> set (snd (GetModuleFileNameA w MAX_PATH))
             \<or> MAX_PATH < length next_to_self + 1)
       \<longrightarrow> fst (load_dxil_mod w) = NULL
           \<and> load_attempts (snd (load_dxil_mod w)) = [''DXIL.dll''])
   \<and> (first = NULL \<and> path_size \<noteq> 0 \<and> path_size \<noteq> of_nat MAX_PATH
        \<and> backslash \<in> set (snd (GetModuleFileNameA w MAX_PATH))
        \<and> length next_to_self + 1 \<le> MAX_PATH
       \<longrightarrow> load_dxil_mod w =
             (LoadLibraryA w next_to_self,
              [EvLoadLibrary ''DXIL.dll'', EvGetModuleFileName, EvLoadLibrary next_to_self]))
   \<and> ((\<forall>p \<in> set (load_attempts (snd (load_dxil_mod w))). LoadLibraryA w p = NULL)
       \<longrightarrow> fst (load_dxil_mod w) = NULL)"
proof -
  have a: "first \<noteq> NULL \<longrightarrow> load_dxil_mod w = (first, [EvLoadLibrary ''DXIL.dll''])"
    unfolding first_def using load_dxil_mod_first by blast
  have b: "first = NULL
        \<and> (path_size = 0 \<or> path_size = of_nat MAX_PATH
             \<or> backslash \<notin> set (snd (GetModuleFileNameA w MAX_PATH))
             \<or> MAX_PATH < length next_to_self + 1)
       \<longrightarrow> fst (load_dxil_mod w) = NULL
           \<and> load_attempts (snd (load_dxil_mod w)) = [''DXIL.dll'']"
    unfolding first_def path_size_def next_to_self_def
    using load_dxil_mod_no_path[of w] by (simp add: MAX_PATH_def)
  have c: "first = NULL \<and> path_size \<noteq> 0 \<and> path_size \<noteq> of_nat MAX_PATH
        \<and> backslash \<in> set (snd (GetModuleFileNameA w MAX_PATH))
        \<and> length next_to_self + 1 \<le> MAX_PATH
       \<longrightarrow> load_dxil_mod w =
             (LoadLibraryA w next_to_self,
              [EvLoadLibrary ''DXIL.dll'', EvGetModuleFileName, EvLoadLibrary next_to_self])"
    unfolding first_def path_size_def next_to_self_def
    using load_dxil_mod_next_to_self[of w] by (simp add: MAX_PATH_def)
  have d: "(\<forall>p \<in> set (load_attempts (snd (load_dxil_mod w))). LoadLibraryA w p = NULL)
       \<longrightarrow> fst (load_dxil_mod w) = NULL"
  proof (cases "first = NULL")
    case False
    with a show ?thesis by (simp add: first_def load_attempts_simps)
  next
    case True
    show ?thesis
    proof (cases "path_size \<noteq> 0 \<and> path_size \<noteq> of_nat MAX_PATH
        \<and> backslash \<in> set (snd (GetModuleFileNameA w MAX_PATH))
        \<and> length next_to_self + 1 \<le> MAX_PATH")
      case True
      with c \<open>first = NULL\<close> show ?thesis by (simp add: load_attempts_simps)
    next
      case False
      with b \<open>first = NULL\<close> show ?thesis by (auto simp add: not_le)
    qed
  qed
  from a b c d show ?thesis by blast
qed

theorem load_dxil_mod_search_order_witness:
  "load_dxil_mod (bare_world\<lparr>LoadLibraryA := (\<lambda>n. if n = ''DXIL.dll'' then 4096 else NULL)\<rparr>)
     = (4096, [EvLoadLibrary ''DXIL.dll''])
   \<and> load_dxil_mod (bare_world\<lparr>
         LoadLibraryA := (\<lambda>n. if n = sample_dxil_path then 8192 else NULL),
         GetModuleFileNameA := (\<lambda>n. (13, sample_self_path))\<rparr>)
     = (8192, [EvLoadLibrary ''DXIL.dll'', EvGetModuleFileName, EvLoadLibrary sample_dxil_path])
   \<and> fst (load_dxil_mod (bare_world\<lparr>
         LoadLibraryA := (\<lambda>n. if n = sample_dxil_path then 8192 else NULL),
         GetModuleFileNameA := (\<lambda>n. (260, sample_self_path))\<rparr>)) = NULL
   \<and> fst (load_dxil_mod bare_world) = NULL"
  using load_dxil_mod_search_order
      [of "bare_world\<lparr>LoadLibraryA := (\<lambda>n. if n = ''DXIL.dll'' then 4096 else NULL)\<rparr>"]
    load_dxil_mod_search_order
      [of "bare_world\<lparr>
         LoadLibraryA := (\<lambda>n. if n = sample_dxil_path then 8192 else NULL),
         GetModuleFileNameA := (\<lambda>n. (13, sample_self_path))\<rparr>"]
    load_dxil_mod_search_order
      [of "bare_world\<lparr>
         LoadLibraryA := (\<lambda>n. if n = sample_dxil_path then 8192 else NULL),
         GetModuleFileNameA := (\<lambda>n. (260, sample_self_path))\<rparr>"]
    load_dxil_mod_search_order [of bare_world]
  by (simp add: bare_world_def sample_self_path_def sample_dxil_path_def directory_of_def
      backslash_def MAX_PATH_def)

section \<open>Properties of construction\<close>

lemma load_dxil_mod_quiet:
  "unloads (snd (load_dxil_mod w)) = []" "releases (snd (load_dxil_mod w)) = []"
  "instantiations (snd (load_dxil_mod w)) = []"
  by (simp_all add: load_dxil_mod_def Let_def case_prod_beta unloads_def releases_def
      instantiations_def split: option.split)

lemma load_dxil_mod_silent_success:
  "fst (load_dxil_mod w) \<noteq> NULL \<longrightarrow> log_lines (snd (load_dxil_mod w)) = []"
  by (simp add: load_dxil_mod_def Let_def case_prod_beta log_lines_def split: option.split)

lemma create_dxc_validator_result:
  "fst (create_dxc_validator w m) =
     (if GetProcAddress w m ''DxcCreateInstance'' = NULL
         \<or> FAILED (fst (DxcCreateInstance w (GetProcAddress w m ''DxcCreateInstance'')
                          CLSID_DxcValidator))
      then NULL
      else snd (DxcCreateInstance w (GetProcAddress w m ''DxcCreateInstance'') CLSID_DxcValidator))"
  by (simp add: create_dxc_validator_def Let_def case_prod_beta)

lemma create_dxc_validator_quiet:
  "unloads (snd (create_dxc_validator w m)) = []" "releases (snd (create_dxc_validator w m)) = []"
  "load_attempts (snd (create_dxc_validator w m)) = []"
  by (simp_all add: create_dxc_validator_def Let_def case_prod_beta unloads_def releases_def
      load_attempts_def)

lemma create_dxc_validator_silent_success:
  "fst (create_dxc_validator w m) \<noteq> NULL \<longrightarrow> log_lines (snd (create_dxc_validator w m)) = []"
  by (simp add: create_dxc_validator_def Let_def case_prod_beta log_lines_def)

lemma trace_append:
  "unloads (a @ b) = unloads a @ unloads b"
  "releases (a @ b) = releases a @ releases b"
  "log_lines (a @ b) = log_lines a @ log_lines b"
  "instantiations (a @ b) = instantiations a @ instantiations b"
  "load_attempts (a @ b) = load_attempts a @ load_attempts b"
  by (simp_all add: unloads_def releases_def log_lines_def instantiations_def load_attempts_def)

lemma dxil_create_validator_no_library:
  assumes "rzalloc_succeeds w ctx" "fst (load_dxil_mod w) = NULL"
  shows "dxil_create_validator w ctx =
     (None, (snd (load_dxil_mod w) @ [EvDebugPrintf (''DXIL: Failed to load DXIL.dll'' @ nl)])
            @ [EvRallocFree])"
  using assms
  by (simp add: dxil_create_validator_def Let_def case_prod_beta rzalloc_dxil_validator_def
      create_fail_def)

lemma dxil_create_validator_no_service:
  assumes "rzalloc_succeeds w ctx" "fst (load_dxil_mod w) \<noteq> NULL"
    and "fst (create_dxc_validator w (fst (load_dxil_mod w))) = NULL"
  shows "dxil_create_validator w ctx =
     (None, (snd (load_dxil_mod w) @ snd (create_dxc_validator w (fst (load_dxil_mod w)))
             @ [EvFreeLibrary (fst (load_dxil_mod w))]) @ [EvRallocFree])"
  using assms
  by (simp add: dxil_create_validator_def Let_def case_prod_beta rzalloc_dxil_validator_def
      create_fail_def)

lemma dxil_create_validator_fails:
  assumes "fst (load_dxil_mod w) = NULL
         \<or> fst (create_dxc_validator w (fst (load_dxil_mod w))) = NULL"
  shows "fst (dxil_create_validator w ctx) = None"
    and "rzalloc_succeeds w ctx \<Longrightarrow>
           unloads (snd (dxil_create_validator w ctx))
             = (if fst (load_dxil_mod w) \<noteq> NULL then [fst (load_dxil_mod w)] else [])
           \<and> releases (snd (dxil_create_validator w ctx)) = []
           \<and> last (snd (dxil_create_validator w ctx)) = EvRallocFree"
proof -
  show "fst (dxil_create_validator w ctx) = None"
  proof (cases "rzalloc_succeeds w ctx")
    case False
    then show ?thesis by (simp add: dxil_create_validator_def)
  next
    case True
    with assms show ?thesis
      using dxil_create_validator_no_library[of w ctx] dxil_create_validator_no_service[of w ctx]
      by (cases "fst (load_dxil_mod w) = NULL") auto
  qed
next
  assume ok: "rzalloc_succeeds w ctx"
  show "unloads (snd (dxil_create_validator w ctx))
             = (if fst (load_dxil_mod w) \<noteq> NULL then [fst (load_dxil_mod w)] else [])
           \<and> releases (snd (dxil_create_validator w ctx)) = []
           \<and> last (snd (dxil_create_validator w ctx)) = EvRallocFree"
  proof (cases "fst (load_dxil_mod w) = NULL")
    case True
    have "unloads [EvDebugPrintf (''DXIL: Failed to load DXIL.dll'' @ nl), EvRallocFree] = []"
      "releases [EvDebugPrintf (''DXIL: Failed to load DXIL.dll'' @ nl), EvRallocFree] = []"
      by (simp_all add: unloads_def releases_def)
    with True show ?thesis
      unfolding dxil_create_validator_no_library[OF ok True]
      by (simp add: trace_append load_dxil_mod_quiet)
  next
    case False
    with assms have v: "fst (create_dxc_validator w (fst (load_dxil_mod w))) = NULL" by simp
    have "unloads [EvFreeLibrary (fst (load_dxil_mod w)), EvRallocFree] = [fst (load_dxil_mod w)]"
      "releases [EvFreeLibrary (fst (load_dxil_mod w)), EvRallocFree] = []"
      by (simp_all add: unloads_def releases_def)
    with False show ?thesis
      unfolding dxil_create_validator_no_service[OF ok False v]
      by (simp add: trace_append load_dxil_mod_quiet create_dxc_validator_quiet)
  qed
qed

lemma dxil_create_validator_succeeds:
  assumes "rzalloc_succeeds w ctx" "fst (load_dxil_mod w) \<noteq> NULL"
    and "fst (create_dxc_validator w (fst (load_dxil_mod w))) \<noteq> NULL"
  shows "dxil_create_validator w ctx =
     (Some (fst (create_diagnostics w
        (rzalloc_dxil_validator\<lparr>dxil_mod := fst (load_dxil_mod w),
           dxc_validator := fst (create_dxc_validator w (fst (load_dxil_mod w)))\<rparr>))),
      snd (load_dxil_mod w) @ snd (create_dxc_validator w (fst (load_dxil_mod w)))
      @ snd (create_diagnostics w
        (rzalloc_dxil_validator\<lparr>dxil_mod := fst (load_dxil_mod w),
           dxc_validator := fst (create_dxc_validator w (fst (load_dxil_mod w)))\<rparr>)))"
  using assms
  by (simp add: dxil_create_validator_def Let_def case_prod_beta rzalloc_dxil_validator_def)

lemma create_diagnostics_keeps:
  "dxil_mod (fst (create_diagnostics w val)) = dxil_mod val"
  "dxc_validator (fst (create_diagnostics w val)) = dxc_validator val"
  by (simp_all add: create_diagnostics_def Let_def case_prod_beta)

lemma dxil_create_validator_Some:
  assumes "fst (dxil_create_validator w ctx) = Some val"
  shows "rzalloc_succeeds w ctx" "fst (load_dxil_mod w) \<noteq> NULL"
    "fst (create_dxc_validator w (fst (load_dxil_mod w))) \<noteq> NULL"
proof -
  show a: "rzalloc_succeeds w ctx"
    using assms by (auto simp add: dxil_create_validator_def split: if_splits)
  show b: "fst (load_dxil_mod w) \<noteq> NULL"
    using assms dxil_create_validator_fails(1)[of w ctx] by auto
  show "fst (create_dxc_validator w (fst (load_dxil_mod w))) \<noteq> NULL"
    using assms dxil_create_validator_fails(1)[of w ctx] by auto
qed


text \<open>
  C3. For every allocation context: when the validator library cannot be loaded, or the
  factory symbol cannot be resolved from it, or the factory call for the validator fails (or
  succeeds with a null service), \<open>dxil_create_validator\<close> returns null; when the arena
  gave it a context, the library is unloaded exactly when it had been loaded, no service is
  released, and the last thing done is freeing the context. Every context returned has the
  loaded library's handle and the created service, both non-null.
\<close>

theorem dxil_create_validator_hard_failures:
  fixes w :: world and ctx :: LPVOID
  defines "m \<equiv> fst (load_dxil_mod w)"
    and "f \<equiv> GetProcAddress w (fst (load_dxil_mod w)) ''DxcCreateInstance''"
  defines "made \<equiv> DxcCreateInstance w f CLSID_DxcValidator"
  shows
  "(m = NULL \<or> f = NULL \<or> FAILED (fst made) \<or> snd made = NULL
      \<longrightarrow> fst (dxil_create_validator w ctx) = None
          \<and> (rzalloc_succeeds w ctx \<longrightarrow>
                unloads (snd (dxil_create_validator w ctx)) = (if m \<noteq> NULL then [m] else [])
                \<and> releases (snd (dxil_create_validator w ctx)) = []
                \<and> last (snd (dxil_create_validator w ctx)) = EvRallocFree))
   \<and> (\<forall>val. fst (dxil_create_validator w ctx) = Some val
        \<longrightarrow> dxil_mod val \<noteq> NULL \<and> dxc_validator val \<noteq> NULL
            \<and> dxil_mod val = m \<and> dxc_validator val = snd made)"
proof -
  have fails: "fst (load_dxil_mod w) = NULL
         \<or> fst (create_dxc_validator w (fst (load_dxil_mod w))) = NULL"
    if "m = NULL \<or> f = NULL \<or> FAILED (fst made) \<or> snd made = NULL"
    using that unfolding m_def f_def made_def
    by (auto simp add: create_dxc_validator_result)
  have first: "m = NULL \<or> f = NULL \<or> FAILED (fst made) \<or> snd made = NULL
      \<longrightarrow> fst (dxil_create_validator w ctx) = None
          \<and> (rzalloc_succeeds w ctx \<longrightarrow>
                unloads (snd (dxil_create_validator w ctx)) = (if m \<noteq> NULL then [m] else [])
                \<and> releases (snd (dxil_create_validator w ctx)) = []
                \<and> last (snd (dxil_create_validator w ctx)) = EvRallocFree)"
    using dxil_create_validator_fails[OF fails, of ctx] unfolding m_def by blast
  have second: "dxil_mod val \<noteq> NULL \<and> dxc_validator val \<noteq> NULL
            \<and> dxil_mod val = m \<and> dxc_validator val = snd made"
    if some: "fst (dxil_create_validator w ctx) = Some val" for val
  proof -
    note ok = dxil_create_validator_Some[OF some]
    have "val = fst (create_diagnostics w
        (rzalloc_dxil_validator\<lparr>dxil_mod := fst (load_dxil_mod w),
           dxc_validator := fst (create_dxc_validator w (fst (load_dxil_mod w)))\<rparr>))"
      using some unfolding dxil_create_validator_succeeds[OF ok] by simp
    then have "dxil_mod val = fst (load_dxil_mod w)"
      "dxc_validator val = fst (create_dxc_validator w (fst (load_dxil_mod w)))"
      by (simp_all add: create_diagnostics_keeps)
    moreover have "fst (create_dxc_validator w (fst (load_dxil_mod w))) = snd made"
      using ok(3) unfolding made_def f_def
      by (simp add: create_dxc_validator_result split: if_splits)
    ultimately show ?thesis using ok unfolding m_def by simp
  qed
  from first second show ?thesis by blast
qed

lemmas world_defs = bare_world_def full_world_def validator_only_world_def
  no_library_service_world_def rejecting_world_def accepting_world_def
  S_OK_def E_FAIL_def FAILED_def SUCCEEDED_def
lemmas create_defs = dxil_create_validator_def load_dxil_mod_def create_dxc_validator_def
  create_diagnostics_def create_fail_def rzalloc_dxil_validator_def MAX_PATH_def nl_def

lemma full_world_create:
  "dxil_create_validator full_world 0 =
     (Some \<lparr>dxil_mod = 0x1000, dxcompiler_mod = 0x2000, dxc_validator = 0x1011,
            dxc_library = 0x2012, dxc_compiler = 0x2013\<rparr>,
      [EvLoadLibrary ''DXIL.dll'', EvGetProcAddress 0x1000 ''DxcCreateInstance'',
       EvCreateInstance 0x1010 CLSID_DxcValidator,
       EvLoadLibrary ''dxcompiler.dll'', EvGetProcAddress 0x2000 ''DxcCreateInstance'',
       EvCreateInstance 0x2010 CLSID_DxcLibrary, EvCreateInstance 0x2010 CLSID_DxcCompiler])"
  by (simp add: world_defs create_defs Let_def)

lemma validator_only_world_create:
  "dxil_create_validator validator_only_world 0 =
     (Some \<lparr>dxil_mod = 0x1000, dxcompiler_mod = NULL, dxc_validator = 0x1011,
            dxc_library = NULL, dxc_compiler = NULL\<rparr>,
      [EvLoadLibrary ''DXIL.dll'', EvGetProcAddress 0x1000 ''DxcCreateInstance'',
       EvCreateInstance 0x1010 CLSID_DxcValidator,
       EvLoadLibrary ''dxcompiler.dll''])"
  by (simp add: world_defs create_defs Let_def)

theorem dxil_create_validator_hard_failures_witness:
  "fst (dxil_create_validator bare_world 0) = None
   \<and> unloads (snd (dxil_create_validator bare_world 0)) = []
   \<and> fst (dxil_create_validator
        (bare_world\<lparr>LoadLibraryA := (\<lambda>n. if n = ''DXIL.dll'' then 0x1000 else NULL)\<rparr>) 0) = None
   \<and> unloads (snd (dxil_create_validator
        (bare_world\<lparr>LoadLibraryA := (\<lambda>n. if n = ''DXIL.dll'' then 0x1000 else NULL)\<rparr>) 0))
       = [0x1000]
   \<and> fst (dxil_create_validator (full_world\<lparr>DxcCreateInstance := (\<lambda>f c. (E_FAIL, NULL))\<rparr>) 0)
       = None
   \<and> last (snd (dxil_create_validator
        (full_world\<lparr>DxcCreateInstance := (\<lambda>f c. (E_FAIL, NULL))\<rparr>) 0)) = EvRallocFree
   \<and> (\<exists>val. fst (dxil_create_validator full_world 0) = Some val
        \<and> dxil_mod val = 0x1000 \<and> dxc_validator val = 0x1011)"
proof -
  let ?w2 = "bare_world\<lparr>LoadLibraryA := (\<lambda>n. if n = ''DXIL.dll'' then 0x1000 else NULL)\<rparr>"
  let ?w3 = "full_world\<lparr>DxcCreateInstance := (\<lambda>f c. (E_FAIL, NULL))\<rparr>"
  have h1: "fst (load_dxil_mod bare_world) = NULL" "rzalloc_succeeds bare_world 0"
    by (simp_all add: world_defs load_dxil_mod_def Let_def)
  have h2: "fst (load_dxil_mod ?w2) = 0x1000"
    "GetProcAddress ?w2 0x1000 ''DxcCreateInstance'' = NULL" "rzalloc_succeeds ?w2 0"
    by (simp_all add: world_defs load_dxil_mod_def Let_def)
  have h3: "fst (load_dxil_mod ?w3) = 0x1000"
    "FAILED (fst (DxcCreateInstance ?w3 (GetProcAddress ?w3 0x1000 ''DxcCreateInstance'')
       CLSID_DxcValidator))" "rzalloc_succeeds ?w3 0"
    by (simp_all add: world_defs load_dxil_mod_def Let_def)
  have h4: "fst (dxil_create_validator full_world 0) =
     Some \<lparr>dxil_mod = 0x1000, dxcompiler_mod = 0x2000, dxc_validator = 0x1011,
            dxc_library = 0x2012, dxc_compiler = 0x2013\<rparr>"
    by (simp add: full_world_create)
  show ?thesis
    using dxil_create_validator_hard_failures [of bare_world 0]
      dxil_create_validator_hard_failures [of ?w2 0]
      dxil_create_validator_hard_failures [of ?w3 0]
      dxil_create_validator_hard_failures [of full_world 0]
      h1 h2 h3 h4
    by simp
qed

section \<open>Properties of the diagnostics part of construction\<close>

lemma create_diagnostics_absent:
  assumes "LoadLibraryA w ''dxcompiler.dll'' = NULL"
  shows "create_diagnostics w val =
     (val\<lparr>dxcompiler_mod := NULL\<rparr>, [EvLoadLibrary ''dxcompiler.dll''])"
  using assms by (simp add: create_diagnostics_def Let_def)

lemma create_diagnostics_no_symbol:
  assumes "LoadLibraryA w ''dxcompiler.dll'' \<noteq> NULL"
    and "GetProcAddress w (LoadLibraryA w ''dxcompiler.dll'') ''DxcCreateInstance'' = NULL"
  shows "create_diagnostics w val =
     (val\<lparr>dxcompiler_mod := LoadLibraryA w ''dxcompiler.dll''\<rparr>,
      [EvLoadLibrary ''dxcompiler.dll'',
       EvGetProcAddress (LoadLibraryA w ''dxcompiler.dll'') ''DxcCreateInstance'',
       EvDebugPrintf (''DXIL: Failed to load DxcCreateInstance from dxcompiler.dll'' @ nl)])"
  using assms by (simp add: create_diagnostics_def Let_def)

lemma create_diagnostics_services:
  assumes "LoadLibraryA w ''dxcompiler.dll'' \<noteq> NULL"
    and "GetProcAddress w (LoadLibraryA w ''dxcompiler.dll'') ''DxcCreateInstance'' \<noteq> NULL"
  shows "create_diagnostics w val =
     (val\<lparr>dxcompiler_mod := LoadLibraryA w ''dxcompiler.dll'',
          dxc_library := snd (DxcCreateInstance w
             (GetProcAddress w (LoadLibraryA w ''dxcompiler.dll'') ''DxcCreateInstance'')
             CLSID_DxcLibrary),
          dxc_compiler := snd (DxcCreateInstance w
             (GetProcAddress w (LoadLibraryA w ''dxcompiler.dll'') ''DxcCreateInstance'')
             CLSID_DxcCompiler)\<rparr>,
      [EvLoadLibrary ''dxcompiler.dll'',
       EvGetProcAddress (LoadLibraryA w ''dxcompiler.dll'') ''DxcCreateInstance'',
       EvCreateInstance
         (GetProcAddress w (LoadLibraryA w ''dxcompiler.dll'') ''DxcCreateInstance'')
         CLSID_DxcLibrary]
      @ (if FAILED (fst (DxcCreateInstance w
             (GetProcAddress w (LoadLibraryA w ''dxcompiler.dll'') ''DxcCreateInstance'')
             CLSID_DxcLibrary))
         then [EvDebugPrintf (''DXIL: Unable to create IDxcLibrary instance'' @ nl)] else [])
      @ [EvCreateInstance
         (GetProcAddress w (LoadLibraryA w ''dxcompiler.dll'') ''DxcCreateInstance'')
         CLSID_DxcCompiler]
      @ (if FAILED (fst (DxcCreateInstance w
             (GetProcAddress w (LoadLibraryA w ''dxcompiler.dll'') ''DxcCreateInstance'')
             CLSID_DxcCompiler))
         then [EvDebugPrintf (''DXIL: Unable to create IDxcCompiler instance'' @ nl)] else []))"
  using assms by (simp add: create_diagnostics_def Let_def case_prod_beta)

lemma create_dxc_validator_instantiates:
  "fst (create_dxc_validator w m) \<noteq> NULL \<longrightarrow>
     instantiations (snd (create_dxc_validator w m)) = [CLSID_DxcValidator]"
  by (simp add: create_dxc_validator_def Let_def case_prod_beta instantiations_def)

text \<open>What the whole trace of a successful construction shows, from its diagnostics part.\<close>

lemma dxil_create_validator_trace:
  assumes "rzalloc_succeeds w ctx" "fst (load_dxil_mod w) \<noteq> NULL"
    and "fst (create_dxc_validator w (fst (load_dxil_mod w))) \<noteq> NULL"
    and "create_diagnostics w
        (rzalloc_dxil_validator\<lparr>dxil_mod := fst (load_dxil_mod w),
           dxc_validator := fst (create_dxc_validator w (fst (load_dxil_mod w)))\<rparr>) = (val, t)"
  shows "fst (dxil_create_validator w ctx) = Some val"
    and "unloads (snd (dxil_create_validator w ctx)) = unloads t"
    and "releases (snd (dxil_create_validator w ctx)) = releases t"
    and "log_lines (snd (dxil_create_validator w ctx)) = log_lines t"
    and "instantiations (snd (dxil_create_validator w ctx)) = CLSID_DxcValidator # instantiations t"
  using load_dxil_mod_silent_success[of w]
    create_dxc_validator_silent_success[of w "fst (load_dxil_mod w)"]
    create_dxc_validator_instantiates[of w "fst (load_dxil_mod w)"]
  unfolding dxil_create_validator_succeeds[OF assms(1,2,3)] assms(4)
  by (simp_all add: assms(2,3) trace_append load_dxil_mod_quiet create_dxc_validator_quiet)


text \<open>
  C5, as the code has it. When the arena gives a context and the validator library and
  service are there, construction returns a context whatever the diagnostics steps do, and
  it unloads and releases nothing. Failing to load dxcompiler.dll is silent: no warning is
  logged and the three diagnostics fields stay null. With the library loaded, a missing
  factory symbol logs a warning, keeps the library's handle and leaves both services null.
  With the symbol resolved, both services are asked for, the compiler also after the
  library failed; each failing call logs its own warning, and each field holds what its
  call stored, which is null for a failing call of a factory that keeps the COM rule.
\<close>

theorem dxil_create_validator_soft_diagnostics:
  fixes w :: world and ctx :: LPVOID
  defines "cm \<equiv> LoadLibraryA w ''dxcompiler.dll''"
  defines "cf \<equiv> GetProcAddress w cm ''DxcCreateInstance''"
  defines "t \<equiv> snd (dxil_create_validator w ctx)"
  assumes "rzalloc_succeeds w ctx" and "fst (load_dxil_mod w) \<noteq> NULL"
    and "fst (create_dxc_validator w (fst (load_dxil_mod w))) \<noteq> NULL"
  shows "\<exists>val. fst (dxil_create_validator w ctx) = Some val
     \<and> dxcompiler_mod val = cm \<and> unloads t = [] \<and> releases t = []
     \<and> (cm = NULL \<longrightarrow>
          dxc_library val = NULL \<and> dxc_compiler val = NULL
          \<and> log_lines t = [] \<and> instantiations t = [CLSID_DxcValidator])
     \<and> (cm \<noteq> NULL \<and> cf = NULL \<longrightarrow>
          dxc_library val = NULL \<and> dxc_compiler val = NULL
          \<and> log_lines t = [''DXIL: Failed to load DxcCreateInstance from dxcompiler.dll'' @ nl]
          \<and> instantiations t = [CLSID_DxcValidator])
     \<and> (cm \<noteq> NULL \<and> cf \<noteq> NULL \<longrightarrow>
          instantiations t = [CLSID_DxcValidator, CLSID_DxcLibrary, CLSID_DxcCompiler]
          \<and> dxc_library val = snd (DxcCreateInstance w cf CLSID_DxcLibrary)
          \<and> dxc_compiler val = snd (DxcCreateInstance w cf CLSID_DxcCompiler)
          \<and> log_lines t =
               (if FAILED (fst (DxcCreateInstance w cf CLSID_DxcLibrary))
                then [''DXIL: Unable to create IDxcLibrary instance'' @ nl] else [])
               @ (if FAILED (fst (DxcCreateInstance w cf CLSID_DxcCompiler))
                  then [''DXIL: Unable to create IDxcCompiler instance'' @ nl] else [])
          \<and> (com_out_rule w \<and> FAILED (fst (DxcCreateInstance w cf CLSID_DxcLibrary))
                 \<longrightarrow> dxc_library val = NULL)
          \<and> (com_out_rule w \<and> FAILED (fst (DxcCreateInstance w cf CLSID_DxcCompiler))
                 \<longrightarrow> dxc_compiler val = NULL))"
proof -
  let ?val0 = "rzalloc_dxil_validator\<lparr>dxil_mod := fst (load_dxil_mod w),
           dxc_validator := fst (create_dxc_validator w (fst (load_dxil_mod w)))\<rparr>"
  note tr = dxil_create_validator_trace[OF assms(4,5,6)]
  consider (absent) "cm = NULL" | (no_symbol) "cm \<noteq> NULL" "cf = NULL"
    | (services) "cm \<noteq> NULL" "cf \<noteq> NULL"
    by blast
  then show ?thesis
  proof cases
    case absent
    note d = create_diagnostics_absent[of w ?val0, OF absent[unfolded cm_def]]
    show ?thesis
      using absent tr[OF d] unfolding t_def
      by (simp add: rzalloc_dxil_validator_def unloads_def releases_def log_lines_def
          instantiations_def)
  next
    case no_symbol
    note d = create_diagnostics_no_symbol[of w ?val0,
        OF no_symbol(1)[unfolded cm_def] no_symbol(2)[unfolded cf_def cm_def]]
    show ?thesis
      using no_symbol tr[OF d] unfolding t_def
      by (simp add: rzalloc_dxil_validator_def unloads_def releases_def log_lines_def
          instantiations_def cm_def)
  next
    case services
    note d = create_diagnostics_services[of w ?val0,
        OF services(1)[unfolded cm_def] services(2)[unfolded cf_def cm_def]]
    have rule: "com_out_rule w \<and> FAILED (fst (DxcCreateInstance w cf c))
        \<longrightarrow> snd (DxcCreateInstance w cf c) = NULL" for c
      by (simp add: com_out_rule_def)
    show ?thesis
      using services rule[of CLSID_DxcLibrary] rule[of CLSID_DxcCompiler] tr[OF d]
      unfolding t_def
      by (simp add: rzalloc_dxil_validator_def unloads_def releases_def log_lines_def
          instantiations_def cm_def cf_def)
  qed
qed


theorem dxil_create_validator_soft_diagnostics_witness:
  "rzalloc_succeeds no_library_service_world 0
   \<and> fst (load_dxil_mod no_library_service_world) \<noteq> NULL
   \<and> fst (create_dxc_validator no_library_service_world
            (fst (load_dxil_mod no_library_service_world))) \<noteq> NULL
   \<and> com_out_rule no_library_service_world
   \<and> (\<exists>val. fst (dxil_create_validator no_library_service_world 0) = Some val
        \<and> dxcompiler_mod val = 0x2000 \<and> dxc_library val = NULL \<and> dxc_compiler val = 0x2013)
   \<and> unloads (snd (dxil_create_validator no_library_service_world 0)) = []
   \<and> instantiations (snd (dxil_create_validator no_library_service_world 0))
       = [CLSID_DxcValidator, CLSID_DxcLibrary, CLSID_DxcCompiler]
   \<and> log_lines (snd (dxil_create_validator no_library_service_world 0))
       = [''DXIL: Unable to create IDxcLibrary instance'' @ nl]"
proof -
  let ?w = no_library_service_world
  have h: "rzalloc_succeeds ?w 0" "fst (load_dxil_mod ?w) = 0x1000"
    "fst (create_dxc_validator ?w 0x1000) = 0x1011"
    by (simp_all add: world_defs load_dxil_mod_def create_dxc_validator_def Let_def)
  have r: "com_out_rule ?w"
    by (simp add: com_out_rule_def world_defs split: CLSID.split)
  have e: "LoadLibraryA ?w ''dxcompiler.dll'' = 0x2000"
    "GetProcAddress ?w 0x2000 ''DxcCreateInstance'' = 0x2010"
    "DxcCreateInstance ?w 0x2010 CLSID_DxcLibrary = (E_FAIL, NULL)"
    "DxcCreateInstance ?w 0x2010 CLSID_DxcCompiler = (S_OK, 0x2013)"
    "FAILED E_FAIL" "\<not> FAILED S_OK"
    by (simp_all add: world_defs)
  show ?thesis
    using dxil_create_validator_soft_diagnostics [of ?w 0] h r
    by (auto simp add: e)
qed

text \<open>
  C5 as stated fails where dxcompiler.dll is not installed: the load fails, construction
  succeeds, and nothing at all is logged.
\<close>

theorem dxcompiler_load_failure_logs_nothing:
  "LoadLibraryA validator_only_world ''dxcompiler.dll'' = NULL
   \<and> fst (dxil_create_validator validator_only_world 0)
       = Some \<lparr>dxil_mod = 0x1000, dxcompiler_mod = NULL, dxc_validator = 0x1011,
               dxc_library = NULL, dxc_compiler = NULL\<rparr>
   \<and> log_lines (snd (dxil_create_validator validator_only_world 0)) = []"
  by (simp add: validator_only_world_create log_lines_def)
     (simp add: world_defs)

section \<open>Properties of destruction\<close>

text \<open>A constructed context holds diagnostics services only from a loaded library.\<close>

lemma constructed_context:
  assumes "fst (dxil_create_validator w ctx) = Some val"
  shows "dxil_mod val \<noteq> NULL" "dxc_validator val \<noteq> NULL"
    "dxcompiler_mod val = NULL \<longrightarrow> dxc_library val = NULL \<and> dxc_compiler val = NULL"
proof -
  note ok = dxil_create_validator_Some[OF assms]
  let ?val0 = "rzalloc_dxil_validator\<lparr>dxil_mod := fst (load_dxil_mod w),
           dxc_validator := fst (create_dxc_validator w (fst (load_dxil_mod w)))\<rparr>"
  have val: "val = fst (create_diagnostics w ?val0)"
    using assms unfolding dxil_create_validator_succeeds[OF ok] by simp
  show "dxil_mod val \<noteq> NULL" "dxc_validator val \<noteq> NULL"
    using ok by (simp_all add: val create_diagnostics_keeps)
  show "dxcompiler_mod val = NULL \<longrightarrow> dxc_library val = NULL \<and> dxc_compiler val = NULL"
    unfolding val
    by (simp add: create_diagnostics_def Let_def case_prod_beta rzalloc_dxil_validator_def)
qed

lemma dxil_destroy_validator_trace:
  assumes "dxc_validator val \<noteq> NULL"
    and "dxcompiler_mod val = NULL \<longrightarrow> dxc_library val = NULL \<and> dxc_compiler val = NULL"
  shows "dxil_destroy_validator val =
     (Returned (),
      [EvRelease (dxc_validator val), EvFreeLibrary (dxil_mod val)]
      @ map EvRelease (filter (\<lambda>p. p \<noteq> NULL) [dxc_library val, dxc_compiler val])
      @ map EvFreeLibrary (filter (\<lambda>m. m \<noteq> NULL) [dxcompiler_mod val])
      @ [EvRallocFree])"
  using assms by (auto simp add: dxil_destroy_validator_def)

text \<open>
  C6, as the code has it. Destroying a constructed context returns, and does exactly this,
  in this order: it releases the validator service, unloads the validator library, releases
  the library service and then the compiler service, each only if it is not null, unloads
  the diagnostics library if it was loaded, and frees the context. So every service held is
  released once, in the order in which construction acquired them; the validator service is
  released before the validator library is unloaded, and each diagnostics service before
  the diagnostics library is unloaded; the validator library is unloaded before the
  diagnostics services are released; the context is freed last.
\<close>

theorem dxil_destroy_validator_releases:
  fixes val :: dxil_validator
  defines "t \<equiv> snd (dxil_destroy_validator val)"
  assumes "fst (dxil_create_validator w ctx) = Some val"
  shows "fst (dxil_destroy_validator val) = Returned ()
     \<and> t = [EvRelease (dxc_validator val), EvFreeLibrary (dxil_mod val)]
           @ map EvRelease (filter (\<lambda>p. p \<noteq> NULL) [dxc_library val, dxc_compiler val])
           @ map EvFreeLibrary (filter (\<lambda>m. m \<noteq> NULL) [dxcompiler_mod val])
           @ [EvRallocFree]
     \<and> releases t = dxc_validator val
          # filter (\<lambda>p. p \<noteq> NULL) [dxc_library val, dxc_compiler val]
     \<and> unloads t = dxil_mod val # filter (\<lambda>m. m \<noteq> NULL) [dxcompiler_mod val]
     \<and> last t = EvRallocFree
     \<and> precedes (EvRelease (dxc_validator val)) (EvFreeLibrary (dxil_mod val)) t
     \<and> followed_by (EvRelease (dxc_validator val)) (EvFreeLibrary (dxil_mod val)) t
     \<and> (dxc_library val \<noteq> NULL \<longrightarrow>
          followed_by (EvRelease (dxc_library val)) (EvFreeLibrary (dxcompiler_mod val)) t
          \<and> followed_by (EvFreeLibrary (dxil_mod val)) (EvRelease (dxc_library val)) t)
     \<and> (dxc_compiler val \<noteq> NULL \<longrightarrow>
          followed_by (EvRelease (dxc_compiler val)) (EvFreeLibrary (dxcompiler_mod val)) t
          \<and> followed_by (EvFreeLibrary (dxil_mod val)) (EvRelease (dxc_compiler val)) t)"
proof -
  note c = constructed_context[OF assms(2)]
  note d = dxil_destroy_validator_trace[OF c(2,3)]
  have shape: "t = [EvRelease (dxc_validator val), EvFreeLibrary (dxil_mod val)]
           @ map EvRelease (filter (\<lambda>p. p \<noteq> NULL) [dxc_library val, dxc_compiler val])
           @ map EvFreeLibrary (filter (\<lambda>m. m \<noteq> NULL) [dxcompiler_mod val])
           @ [EvRallocFree]"
    unfolding t_def d by simp
  have counts: "fst (dxil_destroy_validator val) = Returned ()
     \<and> releases t = dxc_validator val
          # filter (\<lambda>p. p \<noteq> NULL) [dxc_library val, dxc_compiler val]
     \<and> unloads t = dxil_mod val # filter (\<lambda>m. m \<noteq> NULL) [dxcompiler_mod val]
     \<and> last t = EvRallocFree
     \<and> precedes (EvRelease (dxc_validator val)) (EvFreeLibrary (dxil_mod val)) t"
    unfolding t_def d
    using c(3) by (auto simp add: releases_def unloads_def precedes_def)
  have own: "followed_by (EvRelease (dxc_validator val)) (EvFreeLibrary (dxil_mod val)) t"
    unfolding shape by (simp add: followed_by_def)
  have lib: "followed_by (EvRelease (dxc_library val)) (EvFreeLibrary (dxcompiler_mod val)) t
          \<and> followed_by (EvFreeLibrary (dxil_mod val)) (EvRelease (dxc_library val)) t"
    if "dxc_library val \<noteq> NULL"
    unfolding shape using that c(3) by (auto simp add: followed_by_def)
  have comp: "followed_by (EvRelease (dxc_compiler val)) (EvFreeLibrary (dxcompiler_mod val)) t
          \<and> followed_by (EvFreeLibrary (dxil_mod val)) (EvRelease (dxc_compiler val)) t"
    if "dxc_compiler val \<noteq> NULL"
    unfolding shape using that c(3) by (auto simp add: followed_by_def)
  from shape counts own lib comp show ?thesis by blast
qed

theorem dxil_destroy_validator_releases_witness:
  "fst (dxil_create_validator full_world 0) = Some full_context
   \<and> fst (dxil_destroy_validator full_context) = Returned ()
   \<and> snd (dxil_destroy_validator full_context)
       = [EvRelease 0x1011, EvFreeLibrary 0x1000, EvRelease 0x2012, EvRelease 0x2013,
          EvFreeLibrary 0x2000, EvRallocFree]
   \<and> releases (snd (dxil_destroy_validator full_context)) = [0x1011, 0x2012, 0x2013]
   \<and> unloads (snd (dxil_destroy_validator full_context)) = [0x1000, 0x2000]
   \<and> precedes (EvRelease 0x1011) (EvFreeLibrary 0x1000) (snd (dxil_destroy_validator full_context))
   \<and> followed_by (EvRelease 0x2012) (EvFreeLibrary 0x2000)
         (snd (dxil_destroy_validator full_context))
   \<and> followed_by (EvRelease 0x2013) (EvFreeLibrary 0x2000)
         (snd (dxil_destroy_validator full_context))
   \<and> followed_by (EvFreeLibrary 0x1000) (EvRelease 0x2012)
         (snd (dxil_destroy_validator full_context))
   \<and> followed_by (EvFreeLibrary 0x1000) (EvRelease 0x2013)
         (snd (dxil_destroy_validator full_context))"
proof -
  have h: "fst (dxil_create_validator full_world 0) = Some full_context"
    by (simp add: full_world_create full_context_def)
  have f: "dxil_mod full_context = 0x1000" "dxcompiler_mod full_context = 0x2000"
    "dxc_validator full_context = 0x1011" "dxc_library full_context = 0x2012"
    "dxc_compiler full_context = 0x2013"
    by (simp_all add: full_context_def)
  show ?thesis
    using dxil_destroy_validator_releases [OF h] h
    by (simp add: f releases_def unloads_def precedes_def followed_by_def)
qed

text \<open>
  C6 as stated fails on the context of the full machine: the validator library is unloaded
  second, before the library and compiler services are released, and the services are
  released in the order construction acquired them (validator, library, compiler), not in
  the reverse order.
\<close>

theorem dxil_destroy_validator_order:
  "fst (dxil_create_validator full_world 0) = Some full_context
   \<and> instantiations (snd (dxil_create_validator full_world 0))
       = [CLSID_DxcValidator, CLSID_DxcLibrary, CLSID_DxcCompiler]
   \<and> snd (dxil_destroy_validator full_context)
       = [EvRelease 0x1011, EvFreeLibrary 0x1000, EvRelease 0x2012, EvRelease 0x2013,
          EvFreeLibrary 0x2000, EvRallocFree]
   \<and> \<not> precedes (EvRelease 0x2012) (EvFreeLibrary 0x1000)
         (snd (dxil_destroy_validator full_context))
   \<and> releases (snd (dxil_destroy_validator full_context)) \<noteq> rev [0x1011, 0x2012, 0x2013]"
  by (simp add: full_world_create full_context_def dxil_destroy_validator_def
      instantiations_def precedes_def releases_def)

section \<open>Properties of the terminator store and the arena copy\<close>

lemma store_terminator_None: "store_terminator buf = None \<longleftrightarrow> buf = []"
proof (cases "buf = []")
  case True
  then show ?thesis by (simp add: store_terminator_def)
next
  case False
  then have pos: "0 < length buf" by simp
  have "unat ((of_nat (length buf) :: SIZE_T) - 1) < length buf"
  proof (cases "(of_nat (length buf) :: SIZE_T) = 0")
    case True
    then have "2 ^ 64 dvd length buf"
      using word_of_nat_eq_0_iff[where 'a = 64 and n = "length buf"] by simp
    then have "(2::nat) ^ 64 \<le> length buf" using pos by (rule_tac dvd_imp_le) auto
    moreover have "unat ((of_nat (length buf) :: SIZE_T) - 1) < 2 ^ 64"
      using unsigned_less[of "(of_nat (length buf) :: SIZE_T) - 1"] by simp
    ultimately show ?thesis by linarith
  next
    case False
    then have "unat ((of_nat (length buf) :: SIZE_T) - 1) = unat (of_nat (length buf) :: SIZE_T) - 1"
      by (simp add: unat_minus_one)
    moreover have "unat (of_nat (length buf) :: SIZE_T) \<le> length buf"
      by (simp add: unat_of_nat)
    moreover have "0 < unat (of_nat (length buf) :: SIZE_T)"
      using False by (simp add: unat_gt_0)
    ultimately show ?thesis by linarith
  qed
  with False show ?thesis by (simp add: store_terminator_def Let_def)
qed

lemma store_terminator_last:
  assumes "buf \<noteq> []" "length buf < 2 ^ 64"
  shows "store_terminator buf = Some (butlast buf @ [0])"
proof -
  have n: "unat (of_nat (length buf) :: SIZE_T) = length buf"
    using assms(2) by (simp add: unat_of_nat)
  have nz: "(of_nat (length buf) :: SIZE_T) \<noteq> 0"
    using n assms(1) by (metis length_0_conv unat_0)
  have i: "unat ((of_nat (length buf) :: SIZE_T) - 1) = length buf - 1"
    using nz n by (simp add: unat_minus_one)
  have "buf[length buf - 1 := 0] = butlast buf @ [0]"
    using assms(1) by (induction buf rule: rev_induct) simp_all
  with i assms(1) show ?thesis by (simp add: store_terminator_def Let_def)
qed

lemma takeWhile_terminated:
  "takeWhile (\<lambda>b. b \<noteq> (0::byte)) (body @ [0]) = takeWhile (\<lambda>b. b \<noteq> 0) body"
  by (induction body) simp_all

lemma ralloc_strdup_terminated:
  "ralloc_strdup ok (body @ [0])
     = (if ok then Some (takeWhile (\<lambda>b. b \<noteq> 0) body @ [0]) else None)"
  by (simp add: ralloc_strdup_def takeWhile_terminated)

text \<open>The block that resolves the error message: how it leaves and what it stores.\<close>

lemma resolve_error_message_no_library:
  "dxc_library val = NULL \<Longrightarrow>
     resolve_error_message w val result =
       (ReturnNow False, None,
        [EvStoreError None,
         EvDebugPrintf (''DXIL: validation failed, but lacking IDxcLibrary''
            @ ''from dxcompiler.dll for proper diagnostics.'' @ nl)])"
  by (simp add: resolve_error_message_def)

lemma store_terminator_empty: "store_terminator [] = None"
  by (simp add: store_terminator_None)

lemma store_terminator_nonempty: "buf \<noteq> [] \<Longrightarrow> \<exists>str. store_terminator buf = Some str"
  using store_terminator_None[of buf] by (cases "store_terminator buf") simp_all

lemma resolve_error_message_flow:
  "fst (resolve_error_message w val result) =
     (if dxc_library val = NULL then ReturnNow False
      else if \<not> FAILED (fst (GetErrorBuffer result))
              \<and> \<not> FAILED (fst (GetBlobAsUtf8 w (dxc_library val) (snd (GetErrorBuffer result))))
              \<and> snd (GetBlobAsUtf8 w (dxc_library val) (snd (GetErrorBuffer result))) = []
      then Undefined else FallThrough)"
proof (cases "snd (GetBlobAsUtf8 w (dxc_library val) (snd (GetErrorBuffer result))) = []")
  case True
  then show ?thesis
    by (simp add: resolve_error_message_def Let_def case_prod_beta store_terminator_empty)
next
  case False
  from store_terminator_nonempty[OF this] obtain str where
    "store_terminator (snd (GetBlobAsUtf8 w (dxc_library val) (snd (GetErrorBuffer result))))
       = Some str" ..
  with False show ?thesis
    by (simp add: resolve_error_message_def Let_def case_prod_beta)
qed

lemma resolve_error_message_stores:
  fixes w val result
  defines "decoded \<equiv> GetBlobAsUtf8 w (dxc_library val) (snd (GetErrorBuffer result))"
  defines "resolved \<equiv> dxc_library val \<noteq> NULL \<and> \<not> FAILED (fst (GetErrorBuffer result))
                        \<and> \<not> FAILED (fst decoded) \<and> snd decoded \<noteq> []"
  shows "stores (snd (snd (resolve_error_message w val result)))
           = None # (if resolved then [fst (snd (resolve_error_message w val result))] else [])"
    and "\<not> resolved \<Longrightarrow> fst (snd (resolve_error_message w val result)) = None"
    and "hd (snd (snd (resolve_error_message w val result))) = EvStoreError None"
proof -
  have *: "stores (snd (snd (resolve_error_message w val result)))
           = None # (if resolved then [fst (snd (resolve_error_message w val result))] else [])
      \<and> (\<not> resolved \<longrightarrow> fst (snd (resolve_error_message w val result)) = None)
      \<and> hd (snd (snd (resolve_error_message w val result))) = EvStoreError None"
  proof (cases "snd decoded = []")
    case True
    then show ?thesis
      unfolding resolved_def decoded_def
      by (simp add: resolve_error_message_def Let_def case_prod_beta store_terminator_empty
          stores_def)
  next
    case False
    from store_terminator_nonempty[OF this] obtain str where
      "store_terminator (snd decoded) = Some str" ..
    with False show ?thesis
      unfolding resolved_def decoded_def
      by (simp add: resolve_error_message_def Let_def case_prod_beta stores_def)
  qed
  from * show "stores (snd (snd (resolve_error_message w val result)))
           = None # (if resolved then [fst (snd (resolve_error_message w val result))] else [])"
    by blast
  from * show "\<not> resolved \<Longrightarrow> fst (snd (resolve_error_message w val result)) = None"
    by blast
  from * show "hd (snd (snd (resolve_error_message w val result))) = EvStoreError None"
    by blast
qed

lemma FAILED_SUCCEEDED: "SUCCEEDED hr \<longleftrightarrow> \<not> FAILED hr"
  by (auto simp add: FAILED_def SUCCEEDED_def)

text \<open>
  Whenever \<open>dxil_validate_module\<close> returns, it returns whether the status succeeded; the
  one case in which it does not return is the terminator store into an empty decoded text.
\<close>

lemma dxil_validate_module_outcome:
  assumes "dxc_validator val \<noteq> NULL"
  shows "fst (dxil_validate_module w val data n error) =
     (let result = Validate w (dxc_validator val) (ShaderBlob_ctor data n)
                     DxcValidatorFlags_InPlaceEdit
      in if FAILED (GetStatus result) \<and> error \<noteq> None \<and> dxc_library val \<noteq> NULL
            \<and> \<not> FAILED (fst (GetErrorBuffer result))
            \<and> \<not> FAILED (fst (GetBlobAsUtf8 w (dxc_library val) (snd (GetErrorBuffer result))))
            \<and> snd (GetBlobAsUtf8 w (dxc_library val) (snd (GetErrorBuffer result))) = []
         then Fault else Returned (SUCCEEDED (GetStatus result)))"
proof -
  let ?result = "Validate w (dxc_validator val) (ShaderBlob_ctor data n)
                     DxcValidatorFlags_InPlaceEdit"
  obtain fl p t where r: "resolve_error_message w val ?result = (fl, p, t)"
    by (cases "resolve_error_message w val ?result") auto
  have fl: "fl = (if dxc_library val = NULL then ReturnNow False
      else if \<not> FAILED (fst (GetErrorBuffer ?result))
              \<and> \<not> FAILED (fst (GetBlobAsUtf8 w (dxc_library val) (snd (GetErrorBuffer ?result))))
              \<and> snd (GetBlobAsUtf8 w (dxc_library val) (snd (GetErrorBuffer ?result))) = []
      then Undefined else FallThrough)"
    using resolve_error_message_flow[of w val ?result] r by simp
  show ?thesis
    using assms
    by (simp add: dxil_validate_module_def Let_def r fl FAILED_SUCCEEDED)
qed

lemma dxil_validate_module_unfold:
  assumes "dxc_validator val \<noteq> NULL"
  shows "dxil_validate_module w val data n error =
     (let result = Validate w (dxc_validator val) (ShaderBlob_ctor data n)
                     DxcValidatorFlags_InPlaceEdit;
          r = resolve_error_message w val result
      in if FAILED (GetStatus result) \<and> error \<noteq> None
         then (case fst r of ReturnNow b \<Rightarrow> Returned b | Undefined \<Rightarrow> Fault
                | FallThrough \<Rightarrow> Returned (SUCCEEDED (GetStatus result)),
               Some (fst (snd r)), snd (snd r))
         else (Returned (SUCCEEDED (GetStatus result)), error, []))"
  using assms
  by (simp add: dxil_validate_module_def Let_def case_prod_beta split: flow.split)

section \<open>Properties of validation and disassembly\<close>

text \<open>
  C9. In \<open>dxil_validate_module\<close> on a context with its validator, with a non-null
  \<open>error\<close> pointer: when the status failed, the first thing done is the store of null
  through \<open>error\<close>; at most one more store follows, and only when the library service is
  there and both \<open>GetErrorBuffer\<close> and \<open>GetBlobAsUtf8\<close> succeeded; the slot ends up
  holding the last value stored, which is null when there was one store. When the status
  succeeded (or \<open>error\<close> is null), nothing is stored and the slot is as the caller left it.
\<close>

theorem dxil_validate_module_error_slot:
  fixes w :: world and val :: dxil_validator
  defines "result \<equiv> \<lambda>data n. Validate w (dxc_validator val) (ShaderBlob_ctor data n)
                       DxcValidatorFlags_InPlaceEdit"
  assumes "dxc_validator val \<noteq> NULL"
  shows "(FAILED (GetStatus (result data n)) \<longrightarrow>
            hd (snd (snd (dxil_validate_module w val data n (Some e0)))) = EvStoreError None
            \<and> (stores (snd (snd (dxil_validate_module w val data n (Some e0)))) = [None]
                  \<and> fst (snd (dxil_validate_module w val data n (Some e0))) = Some None
                \<or> (\<exists>p. stores (snd (snd (dxil_validate_module w val data n (Some e0)))) = [None, p]
                      \<and> fst (snd (dxil_validate_module w val data n (Some e0))) = Some p
                      \<and> dxc_library val \<noteq> NULL
                      \<and> \<not> FAILED (fst (GetErrorBuffer (result data n)))
                      \<and> \<not> FAILED (fst (GetBlobAsUtf8 w (dxc_library val)
                                         (snd (GetErrorBuffer (result data n))))))))
         \<and> (\<not> FAILED (GetStatus (result data n)) \<longrightarrow>
              stores (snd (snd (dxil_validate_module w val data n (Some e0)))) = []
              \<and> fst (snd (dxil_validate_module w val data n (Some e0))) = Some e0)
         \<and> stores (snd (snd (dxil_validate_module w val data n None))) = []
         \<and> fst (snd (dxil_validate_module w val data n None)) = None"
proof -
  let ?r = "resolve_error_message w val (result data n)"
  note st = resolve_error_message_stores[where w = w and val = val and result = "result data n"]
  have failed: "hd (snd (snd (dxil_validate_module w val data n (Some e0)))) = EvStoreError None
            \<and> (stores (snd (snd (dxil_validate_module w val data n (Some e0)))) = [None]
                  \<and> fst (snd (dxil_validate_module w val data n (Some e0))) = Some None
                \<or> (\<exists>p. stores (snd (snd (dxil_validate_module w val data n (Some e0)))) = [None, p]
                      \<and> fst (snd (dxil_validate_module w val data n (Some e0))) = Some p
                      \<and> dxc_library val \<noteq> NULL
                      \<and> \<not> FAILED (fst (GetErrorBuffer (result data n)))
                      \<and> \<not> FAILED (fst (GetBlobAsUtf8 w (dxc_library val)
                                         (snd (GetErrorBuffer (result data n)))))))"
    if f: "FAILED (GetStatus (result data n))"
  proof -
    have v: "snd (dxil_validate_module w val data n (Some e0)) = (Some (fst (snd ?r)), snd (snd ?r))"
      using f unfolding dxil_validate_module_unfold[OF assms(2)] result_def
      by (simp add: Let_def)
    show ?thesis
      unfolding v using st by (cases "dxc_library val \<noteq> NULL
         \<and> \<not> FAILED (fst (GetErrorBuffer (result data n)))
         \<and> \<not> FAILED (fst (GetBlobAsUtf8 w (dxc_library val) (snd (GetErrorBuffer (result data n)))))
         \<and> snd (GetBlobAsUtf8 w (dxc_library val) (snd (GetErrorBuffer (result data n)))) \<noteq> []")
        simp_all
  qed
  have ok: "stores (snd (snd (dxil_validate_module w val data n (Some e0)))) = []
              \<and> fst (snd (dxil_validate_module w val data n (Some e0))) = Some e0"
    if "\<not> FAILED (GetStatus (result data n))"
    using that unfolding dxil_validate_module_unfold[OF assms(2)] result_def
    by (simp add: Let_def stores_def)
  have none: "stores (snd (snd (dxil_validate_module w val data n None))) = []
         \<and> fst (snd (dxil_validate_module w val data n None)) = None"
    unfolding dxil_validate_module_unfold[OF assms(2)]
    by (simp add: Let_def stores_def)
  from failed ok none show ?thesis by blast
qed

lemma store_then_strdup:
  assumes "buf \<noteq> []" "length buf < 2 ^ 64"
  shows "store_terminator buf = Some (butlast buf @ [0])"
    and "ralloc_strdup ok (butlast buf @ [0]) = (if ok then Some (terminated_copy buf) else None)"
  using store_terminator_last[OF assms]
  by (simp_all add: ralloc_strdup_terminated terminated_copy_def)

lemma dxil_validate_module_resolved:
  fixes w :: world and val :: dxil_validator
  defines "result \<equiv> \<lambda>data n. Validate w (dxc_validator val) (ShaderBlob_ctor data n)
                       DxcValidatorFlags_InPlaceEdit"
  defines "decoded \<equiv> \<lambda>data n. GetBlobAsUtf8 w (dxc_library val)
                       (snd (GetErrorBuffer (result data n)))"
  assumes "dxc_validator val \<noteq> NULL" "dxc_library val \<noteq> NULL"
    and "FAILED (GetStatus (result data n))"
    and "\<not> FAILED (fst (GetErrorBuffer (result data n)))"
    and "\<not> FAILED (fst (decoded data n))"
    and "snd (decoded data n) \<noteq> []" "length (snd (decoded data n)) < 2 ^ 64"
  shows "dxil_validate_module w val data n (Some e0) =
     (Returned False,
      Some (if ralloc_strdup_succeeds w then Some (terminated_copy (snd (decoded data n)))
            else None),
      [EvStoreError None,
       EvStoreError (if ralloc_strdup_succeeds w
                     then Some (terminated_copy (snd (decoded data n))) else None)])"
proof -
  note s = store_then_strdup[OF assms(8,9), unfolded decoded_def result_def]
  have r: "resolve_error_message w val (result data n) =
     (FallThrough,
      (if ralloc_strdup_succeeds w then Some (terminated_copy (snd (decoded data n))) else None),
      [EvStoreError None,
       EvStoreError (if ralloc_strdup_succeeds w
                     then Some (terminated_copy (snd (decoded data n))) else None)])"
    using assms(4,6,7) unfolding decoded_def result_def
    by (simp add: resolve_error_message_def Let_def case_prod_beta s)
  show ?thesis
    using assms(5) unfolding dxil_validate_module_unfold[OF assms(3)]
    by (simp add: Let_def r[unfolded result_def decoded_def] result_def decoded_def
        FAILED_SUCCEEDED)
qed

lemma dxil_disasm_module_resolved:
  fixes w :: world and val :: dxil_validator
  defines "listing \<equiv> \<lambda>data n. GetBlobAsUtf8 w (dxc_library val)
                       (snd (Disassemble w (dxc_compiler val) (ShaderBlob_ctor data n)))"
  assumes "dxc_compiler val \<noteq> NULL" "dxc_library val \<noteq> NULL"
    and "\<not> FAILED (fst (Disassemble w (dxc_compiler val) (ShaderBlob_ctor data n)))"
    and "\<not> FAILED (fst (listing data n))"
    and "snd (listing data n) \<noteq> []" "length (snd (listing data n)) < 2 ^ 64"
  shows "dxil_disasm_module w val data n =
     (Returned (if ralloc_strdup_succeeds w then Some (terminated_copy (snd (listing data n)))
                else None), [])"
proof -
  note s = store_then_strdup[OF assms(6,7), unfolded listing_def]
  show ?thesis
    using assms(2,3,4,5) unfolding listing_def
    by (simp add: dxil_disasm_module_def Let_def case_prod_beta s)
qed

lemma terminated_copy_shape:
  "last (terminated_copy buf) = 0"
  "0 \<notin> set (butlast (terminated_copy buf))"
  "strlen (terminated_copy buf) = length (takeWhile (\<lambda>b. b \<noteq> 0) (butlast buf))"
  "strlen (terminated_copy buf) \<le> length buf - 1"
  "0 \<notin> set (butlast buf) \<Longrightarrow> terminated_copy buf = butlast buf @ [0]"
  "strlen (terminated_copy buf) = 0 \<longleftrightarrow> length buf \<le> 1 \<or> hd buf = 0"
proof -
  show "last (terminated_copy buf) = 0" by (simp add: terminated_copy_def)
  show "0 \<notin> set (butlast (terminated_copy buf))"
    by (auto simp add: terminated_copy_def dest: set_takeWhileD)
  show l: "strlen (terminated_copy buf) = length (takeWhile (\<lambda>b. b \<noteq> 0) (butlast buf))"
    by (simp add: terminated_copy_def strlen_def takeWhile_terminated)
  have "length (takeWhile (\<lambda>b. b \<noteq> 0) (butlast buf)) \<le> length (butlast buf)"
    by (rule length_takeWhile_le)
  then show "strlen (terminated_copy buf) \<le> length buf - 1" by (simp add: l)
  show "terminated_copy buf = butlast buf @ [0]" if "0 \<notin> set (butlast buf)"
    using that by (auto simp add: terminated_copy_def takeWhile_eq_all_conv)
  have "length (takeWhile (\<lambda>b. b \<noteq> 0) (butlast buf)) = 0 \<longleftrightarrow> length buf \<le> 1 \<or> hd buf = 0"
  proof (cases buf)
    case Nil
    then show ?thesis by simp
  next
    case (Cons x xs)
    then show ?thesis by (cases xs) simp_all
  qed
  then show "strlen (terminated_copy buf) = 0 \<longleftrightarrow> length buf \<le> 1 \<or> hd buf = 0"
    by (simp only: l)
qed

lemma sample_status:
  "FAILED E_FAIL" "\<not> FAILED S_OK" "SUCCEEDED S_OK" "\<not> SUCCEEDED E_FAIL"
  by (simp_all add: FAILED_def SUCCEEDED_def E_FAIL_def S_OK_def)

lemma full_context_fields:
  "dxil_mod full_context = 0x1000" "dxcompiler_mod full_context = 0x2000"
  "dxc_validator full_context = 0x1011" "dxc_library full_context = 0x2012"
  "dxc_compiler full_context = 0x2013"
  by (simp_all add: full_context_def)

lemma validator_only_context_fields:
  "dxil_mod validator_only_context = 0x1000" "dxcompiler_mod validator_only_context = NULL"
  "dxc_validator validator_only_context = 0x1011" "dxc_library validator_only_context = NULL"
  "dxc_compiler validator_only_context = NULL"
  by (simp_all add: validator_only_context_def)

lemma rejecting_world_answers:
  "Validate (rejecting_world text) v b flags = \<lparr>GetStatus = E_FAIL, GetErrorBuffer = (S_OK, text)\<rparr>"
  "GetBlobAsUtf8 (rejecting_world text) l raw = (S_OK, raw)"
  "Disassemble (rejecting_world text) c b = (S_OK, text)"
  "ralloc_strdup_succeeds (rejecting_world text)"
  by (simp_all add: rejecting_world_def full_world_def bare_world_def)

lemma accepting_world_answers:
  "Validate accepting_world v b flags = \<lparr>GetStatus = S_OK, GetErrorBuffer = (S_OK, [])\<rparr>"
  by (simp add: accepting_world_def full_world_def bare_world_def)

lemma rejecting_world_validate:
  assumes "text \<noteq> []" "length text < 2 ^ 64"
  shows "dxil_validate_module (rejecting_world text) full_context data n (Some e0) =
     (Returned False, Some (Some (terminated_copy text)),
      [EvStoreError None, EvStoreError (Some (terminated_copy text))])"
  using dxil_validate_module_resolved
    [where w = "rejecting_world text" and val = full_context and data = data and n = n
       and ?e0.0 = e0]
    assms
  by (simp add: rejecting_world_answers full_context_fields sample_status)

lemma rejecting_world_disasm:
  assumes "text \<noteq> []" "length text < 2 ^ 64"
  shows "dxil_disasm_module (rejecting_world text) full_context data n =
     (Returned (Some (terminated_copy text)), [])"
  using dxil_disasm_module_resolved
    [where w = "rejecting_world text" and val = full_context and data = data and n = n]
    assms
  by (simp add: rejecting_world_answers full_context_fields sample_status)

lemma accepting_world_validate:
  "dxil_validate_module accepting_world full_context data n error
     = (Returned True, error, [])"
  by (simp add: dxil_validate_module_def accepting_world_answers full_context_fields
      sample_status Let_def)

theorem dxil_validate_module_error_slot_witness:
  "dxc_validator full_context \<noteq> NULL
   \<and> FAILED (GetStatus (Validate (rejecting_world [0x41, 0x42]) (dxc_validator full_context)
        (ShaderBlob_ctor 0 0) DxcValidatorFlags_InPlaceEdit))
   \<and> hd (snd (snd (dxil_validate_module (rejecting_world [0x41, 0x42]) full_context 0 0
        (Some (Some [7, 0]))))) = EvStoreError None
   \<and> stores (snd (snd (dxil_validate_module (rejecting_world [0x41, 0x42]) full_context 0 0
        (Some (Some [7, 0]))))) = [None, Some [0x41, 0]]
   \<and> fst (snd (dxil_validate_module (rejecting_world [0x41, 0x42]) full_context 0 0
        (Some (Some [7, 0])))) = Some (Some [0x41, 0])
   \<and> \<not> FAILED (GetStatus (Validate accepting_world (dxc_validator full_context)
        (ShaderBlob_ctor 0 0) DxcValidatorFlags_InPlaceEdit))
   \<and> stores (snd (snd (dxil_validate_module accepting_world full_context 0 0
        (Some (Some [7, 0]))))) = []
   \<and> fst (snd (dxil_validate_module accepting_world full_context 0 0 (Some (Some [7, 0]))))
       = Some (Some [7, 0])"
proof -
  have v: "dxc_validator full_context \<noteq> NULL" by (simp add: full_context_fields)
  have r: "dxil_validate_module (rejecting_world [0x41, 0x42]) full_context 0 0
        (Some (Some [7, 0]))
      = (Returned False, Some (Some [0x41, 0]), [EvStoreError None, EvStoreError (Some [0x41, 0])])"
    using rejecting_world_validate[of "[0x41, 0x42]" 0 0 "Some [7, 0]"]
    by (simp add: terminated_copy_def)
  show ?thesis
    using dxil_validate_module_error_slot
        [OF v, where w = "rejecting_world [0x41, 0x42]" and data = 0 and n = 0
           and ?e0.0 = "Some [7, 0]"]
      dxil_validate_module_error_slot
        [OF v, where w = accepting_world and data = 0 and n = 0 and ?e0.0 = "Some [7, 0]"]
    by (simp add: r v rejecting_world_answers accepting_world_answers sample_status
        accepting_world_validate stores_def)
qed

text \<open>
  C4. On every context that lacks the compiler service or the library service,
  \<open>dxil_disasm_module\<close> writes its warning to stderr and returns null, for every buffer and
  whatever the world answers. On every context with its validator and without the library
  service, \<open>dxil_validate_module\<close> of a buffer the validator rejects, with a non-null
  \<open>error\<close> pointer, returns false with null stored through \<open>error\<close>, and logs its warning.
\<close>

theorem diagnostics_absent_unavailable:
  "(dxc_compiler val = NULL \<or> dxc_library val = NULL \<longrightarrow>
      dxil_disasm_module w val data n =
        (Returned None,
         [EvStderr (''DXIL: disassembly requires IDxcLibrary and ''
                    @ ''IDxcCompiler from dxcompiler.dll'' @ nl)]))
   \<and> (dxc_validator val \<noteq> NULL \<and> dxc_library val = NULL
        \<and> FAILED (GetStatus (Validate w (dxc_validator val) (ShaderBlob_ctor data n)
                     DxcValidatorFlags_InPlaceEdit)) \<longrightarrow>
      dxil_validate_module w val data n (Some e0) =
        (Returned False, Some None,
         [EvStoreError None,
          EvDebugPrintf (''DXIL: validation failed, but lacking IDxcLibrary''
            @ ''from dxcompiler.dll for proper diagnostics.'' @ nl)]))"
proof -
  have d: "dxil_disasm_module w val data n =
        (Returned None,
         [EvStderr (''DXIL: disassembly requires IDxcLibrary and ''
                    @ ''IDxcCompiler from dxcompiler.dll'' @ nl)])"
    if "dxc_compiler val = NULL \<or> dxc_library val = NULL"
    using that by (simp add: dxil_disasm_module_def)
  have v: "dxil_validate_module w val data n (Some e0) =
        (Returned False, Some None,
         [EvStoreError None,
          EvDebugPrintf (''DXIL: validation failed, but lacking IDxcLibrary''
            @ ''from dxcompiler.dll for proper diagnostics.'' @ nl)])"
    if "dxc_validator val \<noteq> NULL" "dxc_library val = NULL"
      "FAILED (GetStatus (Validate w (dxc_validator val) (ShaderBlob_ctor data n)
                     DxcValidatorFlags_InPlaceEdit))"
    using that(3) unfolding dxil_validate_module_unfold[OF that(1)]
    by (simp add: Let_def resolve_error_message_no_library[OF that(2)])
  from d v show ?thesis by blast
qed

theorem diagnostics_absent_unavailable_witness:
  "fst (dxil_create_validator
          (validator_only_world\<lparr>Validate :=
             (\<lambda>v b flags. \<lparr>GetStatus = E_FAIL, GetErrorBuffer = (S_OK, [0x41, 0])\<rparr>)\<rparr>) 0)
     = Some validator_only_context
   \<and> dxc_compiler validator_only_context = NULL \<and> dxc_library validator_only_context = NULL
   \<and> dxc_validator validator_only_context \<noteq> NULL
   \<and> fst (dxil_disasm_module
          (validator_only_world\<lparr>Validate :=
             (\<lambda>v b flags. \<lparr>GetStatus = E_FAIL, GetErrorBuffer = (S_OK, [0x41, 0])\<rparr>)\<rparr>)
          validator_only_context 0 0) = Returned None
   \<and> fst (dxil_validate_module
          (validator_only_world\<lparr>Validate :=
             (\<lambda>v b flags. \<lparr>GetStatus = E_FAIL, GetErrorBuffer = (S_OK, [0x41, 0])\<rparr>)\<rparr>)
          validator_only_context 0 0 (Some (Some [7, 0]))) = Returned False
   \<and> fst (snd (dxil_validate_module
          (validator_only_world\<lparr>Validate :=
             (\<lambda>v b flags. \<lparr>GetStatus = E_FAIL, GetErrorBuffer = (S_OK, [0x41, 0])\<rparr>)\<rparr>)
          validator_only_context 0 0 (Some (Some [7, 0])))) = Some None"
proof -
  let ?w = "validator_only_world\<lparr>Validate :=
             (\<lambda>v b flags. \<lparr>GetStatus = E_FAIL, GetErrorBuffer = (S_OK, [0x41, 0])\<rparr>)\<rparr>"
  have c: "fst (dxil_create_validator ?w 0) = Some validator_only_context"
    by (simp add: world_defs create_defs Let_def validator_only_context_def)
  have s: "FAILED (GetStatus (Validate ?w (dxc_validator validator_only_context)
             (ShaderBlob_ctor 0 0) DxcValidatorFlags_InPlaceEdit))"
    by (simp add: sample_status)
  show ?thesis
    using diagnostics_absent_unavailable
        [where w = ?w and val = validator_only_context and data = 0 and n = 0
           and ?e0.0 = "Some [7, 0]"] c s
    by (simp add: validator_only_context_fields)
qed

text \<open>
  C2, as the code has it. When the context has its validator and the library service, the
  status failed, a message was requested, \<open>GetErrorBuffer\<close> and \<open>GetBlobAsUtf8\<close> succeeded
  with a decoded buffer of at least one byte, and the arena has memory, the string stored
  through \<open>error\<close> is the arena copy of the decoded buffer with its last byte overwritten by
  the terminator: the bytes before the last byte, up to the first zero byte among them, and
  a terminator. The same holds for the string \<open>dxil_disasm_module\<close> returns when both of its
  services are there and both of its calls succeeded. That string ends in its only zero
  byte, is no longer than the buffer without its last byte, is all of the buffer but its
  last byte when no zero byte comes earlier, and is empty exactly for a buffer of one byte
  or one that starts with a zero byte.
\<close>

theorem decoded_text_terminated_copy:
  fixes w :: world and val :: dxil_validator and data :: LPVOID and n :: SIZE_T
  defines "result \<equiv> Validate w (dxc_validator val) (ShaderBlob_ctor data n)
                       DxcValidatorFlags_InPlaceEdit"
  defines "decoded \<equiv> GetBlobAsUtf8 w (dxc_library val) (snd (GetErrorBuffer result))"
  defines "listing \<equiv> GetBlobAsUtf8 w (dxc_library val)
                       (snd (Disassemble w (dxc_compiler val) (ShaderBlob_ctor data n)))"
  shows
  "(dxc_validator val \<noteq> NULL \<and> dxc_library val \<noteq> NULL \<and> FAILED (GetStatus result)
      \<and> \<not> FAILED (fst (GetErrorBuffer result)) \<and> \<not> FAILED (fst decoded)
      \<and> snd decoded \<noteq> [] \<and> length (snd decoded) < 2 ^ 64 \<and> ralloc_strdup_succeeds w
     \<longrightarrow> dxil_validate_module w val data n (Some e0) =
           (Returned False, Some (Some (terminated_copy (snd decoded))),
            [EvStoreError None, EvStoreError (Some (terminated_copy (snd decoded)))]))
   \<and> (dxc_compiler val \<noteq> NULL \<and> dxc_library val \<noteq> NULL
      \<and> \<not> FAILED (fst (Disassemble w (dxc_compiler val) (ShaderBlob_ctor data n)))
      \<and> \<not> FAILED (fst listing)
      \<and> snd listing \<noteq> [] \<and> length (snd listing) < 2 ^ 64 \<and> ralloc_strdup_succeeds w
     \<longrightarrow> dxil_disasm_module w val data n = (Returned (Some (terminated_copy (snd listing))), []))
   \<and> last (terminated_copy buf) = 0
   \<and> 0 \<notin> set (butlast (terminated_copy buf))
   \<and> strlen (terminated_copy buf) \<le> length buf - 1
   \<and> (0 \<notin> set (butlast buf) \<longrightarrow> terminated_copy buf = butlast buf @ [0])
   \<and> (strlen (terminated_copy buf) = 0) = (length buf \<le> 1 \<or> hd buf = 0)"
proof -
  have v: "dxil_validate_module w val data n (Some e0) =
           (Returned False, Some (Some (terminated_copy (snd decoded))),
            [EvStoreError None, EvStoreError (Some (terminated_copy (snd decoded)))])"
    if "dxc_validator val \<noteq> NULL \<and> dxc_library val \<noteq> NULL \<and> FAILED (GetStatus result)
      \<and> \<not> FAILED (fst (GetErrorBuffer result)) \<and> \<not> FAILED (fst decoded)
      \<and> snd decoded \<noteq> [] \<and> length (snd decoded) < 2 ^ 64 \<and> ralloc_strdup_succeeds w"
    using that
      dxil_validate_module_resolved[where w = w and val = val and data = data and n = n
        and ?e0.0 = e0]
    unfolding result_def decoded_def by simp
  have d: "dxil_disasm_module w val data n
             = (Returned (Some (terminated_copy (snd listing))), [])"
    if "dxc_compiler val \<noteq> NULL \<and> dxc_library val \<noteq> NULL
      \<and> \<not> FAILED (fst (Disassemble w (dxc_compiler val) (ShaderBlob_ctor data n)))
      \<and> \<not> FAILED (fst listing)
      \<and> snd listing \<noteq> [] \<and> length (snd listing) < 2 ^ 64 \<and> ralloc_strdup_succeeds w"
    using that
      dxil_disasm_module_resolved[where w = w and val = val and data = data and n = n]
    unfolding listing_def by simp
  from v d terminated_copy_shape[of buf] show ?thesis by blast
qed

theorem decoded_text_terminated_copy_witness:
  "dxc_validator full_context \<noteq> NULL \<and> dxc_library full_context \<noteq> NULL
   \<and> dxc_compiler full_context \<noteq> NULL
   \<and> FAILED (GetStatus (Validate (rejecting_world [0x41, 0x42, 0]) (dxc_validator full_context)
        (ShaderBlob_ctor 0 0) DxcValidatorFlags_InPlaceEdit))
   \<and> ralloc_strdup_succeeds (rejecting_world [0x41, 0x42, 0])
   \<and> dxil_validate_module (rejecting_world [0x41, 0x42, 0]) full_context 0 0 (Some None)
       = (Returned False, Some (Some [0x41, 0x42, 0]),
          [EvStoreError None, EvStoreError (Some [0x41, 0x42, 0])])
   \<and> dxil_disasm_module (rejecting_world [0x41, 0x42, 0]) full_context 0 0
       = (Returned (Some [0x41, 0x42, 0]), [])
   \<and> strlen (terminated_copy [0x41, 0x42, 0]) = 2"
proof -
  have t: "terminated_copy [0x41, 0x42, 0] = [0x41, 0x42, 0]"
    by (simp add: terminated_copy_def)
  show ?thesis
    using decoded_text_terminated_copy
      [where w = "rejecting_world [0x41, 0x42, 0]" and val = full_context and data = 0
         and n = 0 and ?e0.0 = None and buf = "[0x41, 0x42, 0]"]
    by (simp add: rejecting_world_answers full_context_fields sample_status t strlen_def)
qed

text \<open>
  C2 as stated fails for a decoded buffer of one byte: the terminator overwrites that byte
  and the string stored, and the string returned by disassembly, is the empty string. For
  the two bytes \<open>AB\<close> with no terminator the string is \<open>A\<close>: the last byte is lost.
\<close>

theorem one_byte_text_gives_empty_string:
  "dxc_library full_context \<noteq> NULL
   \<and> FAILED (GetStatus (Validate (rejecting_world [0x41]) (dxc_validator full_context)
        (ShaderBlob_ctor 0 0) DxcValidatorFlags_InPlaceEdit))
   \<and> dxil_validate_module (rejecting_world [0x41]) full_context 0 0 (Some None)
       = (Returned False, Some (Some [0]), [EvStoreError None, EvStoreError (Some [0])])
   \<and> dxil_disasm_module (rejecting_world [0x41]) full_context 0 0 = (Returned (Some [0]), [])
   \<and> strlen [0] = 0
   \<and> dxil_validate_module (rejecting_world [0x41, 0x42]) full_context 0 0 (Some None)
       = (Returned False, Some (Some [0x41, 0]), [EvStoreError None, EvStoreError (Some [0x41, 0])])"
  using rejecting_world_validate[of "[0x41]" 0 0 None]
    rejecting_world_disasm[of "[0x41]" 0 0]
    rejecting_world_validate[of "[0x41, 0x42]" 0 0 None]
  by (simp add: terminated_copy_def strlen_def rejecting_world_answers full_context_fields
      sample_status)

text \<open>
  C1 at a rejected buffer whose decoded error text has no bytes: the validator's status
  failed, a message was requested and every diagnostics call succeeded, but the terminator
  is stored at index \<open>0 - 1\<close> of a buffer of size 0, outside the buffer, and
  \<open>dxil_validate_module\<close> does not get to return false.
\<close>

theorem dxil_validate_module_empty_error_text:
  "dxc_validator full_context \<noteq> NULL
   \<and> FAILED (GetStatus (Validate (rejecting_world []) (dxc_validator full_context)
        (ShaderBlob_ctor 0 0) DxcValidatorFlags_InPlaceEdit))
   \<and> store_terminator [] = None
   \<and> dxil_validate_module (rejecting_world []) full_context 0 0 (Some None)
       = (Fault, Some None, [EvStoreError None])
   \<and> fst (dxil_validate_module (rejecting_world []) full_context 0 0 (Some None))
       \<noteq> Returned False"
  by (simp add: dxil_validate_module_def resolve_error_message_def Let_def
      rejecting_world_answers full_context_fields sample_status store_terminator_empty)

end
